theory Spec2Isabelle
  imports Main "HOL-Library.Word" "HOL-Library.Signed_Division"
begin

section \<open>The LoadRunner calls of Next\_Journey.c\<close>

text \<open>
  The script \<^verbatim>\<open>Next_Journey.c\<close> is straight-line C over the LoadRunner library
  (\<^verbatim>\<open>web_api.h\<close>, \<^verbatim>\<open>lrun.h\<close>) and \<^verbatim>\<open>rand\<close>. None of the library is in the source, so
  its calls are modelled by what the script can see of them:
  \<^item> every call that acts on the library or draws a fresh value is recorded, in call
    order, with its arguments, as an event of a trace kept in the state;
  \<^item> what the calls hand back comes from an environment: the virtual-user id and the
    session id (the same throughout a run), the successive values of \<^verbatim>\<open>rand()\<close> and the
    status each \<^verbatim>\<open>web_custom_request\<close> returns;
  \<^item> every library call returns to its caller.

  A C \<^verbatim>\<open>int\<close> is a \<open>32 word\<close> read by \<open>sint\<close>; a C string is a \<open>string\<close>. Writing past
  the end of a \<^verbatim>\<open>char\<close> array and overflowing an \<^verbatim>\<open>int\<close> are undefined in C: a function
  of the script returns \<open>Inl\<close> there and \<open>Inr\<close> otherwise.
\<close>

text \<open>The two status macros of \<^verbatim>\<open>lrun.h\<close> the script uses, kept symbolic and distinct.\<close>

datatype lr_status = LR_PASS | LR_FAIL

text \<open>
  \<open>Custom_request name args status\<close>: \<open>args\<close> are the attribute strings exactly as the
  source passes them (before \<^verbatim>\<open>LAST\<close>), and \<open>status\<close> is what the call returned.
\<close>

datatype event =
    Start_transaction string
  | End_transaction string lr_status
  | Add_header string string
  | Custom_request string "string list" lr_status
  | Think_time int
  | Rand_drawn "32 word"
  | Error_message string

text \<open>The two ways in which the script can leave defined behaviour.\<close>

datatype undefined_behaviour = Buffer_overrun | Signed_overflow

record env =
  vuser_id :: "32 word"
  session_id :: string
  rand_value :: "nat \<Rightarrow> 32 word"
  http_result :: "nat \<Rightarrow> lr_status"

text \<open>
  The globals of the script, followed by the trace and the number of calls of
  \<^verbatim>\<open>rand\<close> and of \<^verbatim>\<open>web_custom_request\<close> made so far.
\<close>

record state =
  LSN :: string
  LTN :: string
  TSN :: string
  dt_header :: string
  company_name :: string
  base_url :: string
  journey_steps :: "32 word"
  think_time_ms :: "32 word"
  error_simulation :: "32 word"
  trace :: "event list"
  rand_calls :: nat
  http_calls :: nat

definition init_state :: state where
  "init_state =
     \<lparr>LSN = ''BizObs_Next_Retail_Journey'',
      LTN = ''Next_Performance_Test_20251127'',
      TSN = ''ProductDiscovery'',
      dt_header = [],
      company_name = ''Next'',
      base_url = ''http://localhost:8080'',
      journey_steps = 6,
      think_time_ms = 3000,
      error_simulation = 1,
      trace = [],
      rand_calls = 0,
      http_calls = 0\<rparr>"

subsection \<open>Formatting and C arithmetic\<close>

fun dec_nat :: "nat \<Rightarrow> string" where
  "dec_nat n =
     (if n < 10 then [''0123456789'' ! n]
      else dec_nat (n div 10) @ [''0123456789'' ! (n mod 10)])"

declare dec_nat.simps [simp del]

text \<open>The conversion \<^verbatim>\<open>%d\<close>.\<close>

definition fmt_d :: "int \<Rightarrow> string" where
  "fmt_d i = (if i < 0 then CHR ''-'' # dec_nat (nat (- i)) else dec_nat (nat i))"

text \<open>
  \<^verbatim>\<open>sprintf\<close> into a \<^verbatim>\<open>char\<close> array of \<open>cap\<close> bytes: the text and its terminating
  NUL have to fit.
\<close>

definition sprintf :: "nat \<Rightarrow> string \<Rightarrow> undefined_behaviour + string" where
  "sprintf cap text = (if length text < cap then Inr text else Inl Buffer_overrun)"

text \<open>Multiplication of two \<^verbatim>\<open>int\<close>s.\<close>

definition int_mul :: "32 word \<Rightarrow> 32 word \<Rightarrow> undefined_behaviour + 32 word" where
  "int_mul a b =
     (if - (2 ^ 31) \<le> sint a * sint b \<and> sint a * sint b < 2 ^ 31 then Inr (a * b)
      else Inl Signed_overflow)"

definition bind_ub ::
  "undefined_behaviour + 'a \<Rightarrow> ('a \<Rightarrow> undefined_behaviour + 'b) \<Rightarrow> undefined_behaviour + 'b" where
  "bind_ub m f = (case m of Inl u \<Rightarrow> Inl u | Inr x \<Rightarrow> f x)"

subsection \<open>Library calls\<close>

definition lr_get_vuser_id :: "env \<Rightarrow> 32 word" where
  "lr_get_vuser_id e = vuser_id e"

definition lr_get_session_id :: "env \<Rightarrow> string" where
  "lr_get_session_id e = session_id e"

definition log_event :: "event \<Rightarrow> state \<Rightarrow> state" where
  "log_event ev s = s\<lparr>trace := trace s @ [ev]\<rparr>"

definition lr_start_transaction :: "string \<Rightarrow> state \<Rightarrow> state" where
  "lr_start_transaction name s = log_event (Start_transaction name) s"

definition lr_end_transaction :: "string \<Rightarrow> lr_status \<Rightarrow> state \<Rightarrow> state" where
  "lr_end_transaction name st s = log_event (End_transaction name st) s"

definition web_add_header :: "string \<Rightarrow> string \<Rightarrow> state \<Rightarrow> state" where
  "web_add_header name v s = log_event (Add_header name v) s"

definition lr_think_time :: "32 word \<Rightarrow> state \<Rightarrow> state" where
  "lr_think_time t s = log_event (Think_time (sint t)) s"

definition lr_error_message :: "string \<Rightarrow> state \<Rightarrow> state" where
  "lr_error_message msg s = log_event (Error_message msg) s"

definition web_custom_request ::
  "env \<Rightarrow> string \<Rightarrow> string list \<Rightarrow> state \<Rightarrow> lr_status \<times> state" where
  "web_custom_request e name args s =
     (let r = http_result e (http_calls s)
      in (r, (log_event (Custom_request name args r) s)\<lparr>http_calls := Suc (http_calls s)\<rparr>))"

definition rand :: "env \<Rightarrow> state \<Rightarrow> 32 word \<times> state" where
  "rand e s =
     (let r = rand_value e (rand_calls s)
      in (r, (log_event (Rand_drawn r) s)\<lparr>rand_calls := Suc (rand_calls s)\<rparr>))"

subsection \<open>The script\<close>

definition execute_journey_step ::
  "env \<Rightarrow> string \<Rightarrow> string \<Rightarrow> string \<Rightarrow> string \<Rightarrow> 32 word \<Rightarrow> state
     \<Rightarrow> undefined_behaviour + (lr_status \<times> state)" where
  "execute_journey_step e step_name endpoint method body duration s0 =
     bind_ub (sprintf 256 (''Step_'' @ step_name)) (\<lambda>transaction_name.
     let s1 = lr_start_transaction transaction_name s0 in
     bind_ub (sprintf 1024
        (''VU: '' @ fmt_d (sint (lr_get_vuser_id e)) @ ''; SI: '' @ lr_get_session_id e
          @ ''; TSN: '' @ step_name @ ''; LSN: '' @ LSN s1 @ ''; LTN: '' @ LTN s1)) (\<lambda>h.
     let s2 = s1\<lparr>dt_header := h\<rparr>;
         s3 = web_add_header ''X-dynaTrace'' (dt_header s2) s2;
         s4 = web_add_header ''X-LoadRunner-Step'' step_name s3 in
     bind_ub (sprintf 512 (base_url s4 @ endpoint)) (\<lambda>full_url.
     let s5 = (if method = ''POST''
               then snd (web_custom_request e step_name
                      [''URL={full_url}'', ''Method=POST'', ''Resource=0'',
                       ''RecContentType=application/json'', ''Body={body}''] s4)
               else s4) in
     bind_ub (int_mul duration 1000) (\<lambda>ms.
     let s6 = lr_think_time ms s5 in
     if error_simulation s6 \<noteq> 0
     then (let (r, s7) = rand e s6 in
           if sint r smod 100 < 5
           then Inr (LR_FAIL,
                  lr_error_message (''Simulated error in step: '' @ step_name)
                    (lr_end_transaction transaction_name LR_FAIL s7))
           else Inr (LR_PASS, lr_end_transaction transaction_name LR_PASS s7))
     else Inr (LR_PASS, lr_end_transaction transaction_name LR_PASS s6)))))"

text \<open>The request bodies of the six steps, as the literals of \<^verbatim>\<open>Action\<close> give them.\<close>

definition ProductDiscovery_body :: string where
  \<open>ProductDiscovery_body =
     ''{"companyName":"Next","stepName":"ProductDiscovery","substeps":[{"substepName":"Browse Categories","duration":5},{"substepName":"Search Products","duration":8}]}''\<close>

definition CartManagement_body :: string where
  \<open>CartManagement_body =
     ''{"companyName":"Next","stepName":"CartManagement","substeps":[{"substepName":"Add to Cart","duration":3},{"substepName":"Update Quantities","duration":5}]}''\<close>

definition CheckoutProcess_body :: string where
  \<open>CheckoutProcess_body =
     ''{"companyName":"Next","stepName":"CheckoutProcess","substeps":[{"substepName":"Payment Details","duration":12},{"substepName":"Delivery Options","duration":7}]}''\<close>

definition OrderConfirmation_body :: string where
  \<open>OrderConfirmation_body =
     ''{"companyName":"Next","stepName":"OrderConfirmation","substeps":[{"substepName":"Process Payment","duration":8},{"substepName":"Generate Receipt","duration":4}]}''\<close>

definition FulfillmentProcessing_body :: string where
  \<open>FulfillmentProcessing_body =
     ''{"companyName":"Next","stepName":"FulfillmentProcessing","substeps":[{"substepName":"Inventory Check","duration":6},{"substepName":"Prepare Order","duration":15}]}''\<close>

definition DeliveryTracking_body :: string where
  \<open>DeliveryTracking_body =
     ''{"companyName":"Next","stepName":"DeliveryTracking","substeps":[{"substepName":"Generate Tracking","duration":3},{"substepName":"Send Notifications","duration":5}]}''\<close>

definition Action :: "env \<Rightarrow> state \<Rightarrow> undefined_behaviour + (32 word \<times> state)" where
  \<open>Action e s0 =
     (let s1 = lr_start_transaction ''Journey_Initialization'' s0 in
      bind_ub (sprintf 1024
         (''VU: '' @ fmt_d (sint (lr_get_vuser_id e)) @ ''; SI: '' @ lr_get_session_id e
           @ ''; TSN: Journey_Start; LSN: '' @ LSN s1 @ ''; LTN: '' @ LTN s1)) (\<lambda>h.
      let s2 = s1\<lparr>dt_header := h\<rparr>;
          s3 = web_add_header ''X-dynaTrace'' (dt_header s2) s2;
          s4 = web_add_header ''X-LoadRunner-Company'' (company_name s3) s3;
          s5 = lr_end_transaction ''Journey_Initialization'' LR_PASS s4 in
      bind_ub (execute_journey_step e ''ProductDiscovery'' ''/api/process'' ''POST''
         ProductDiscovery_body
         13 s5) (\<lambda>(r1, s6).
      bind_ub (execute_journey_step e ''CartManagement'' ''/api/process'' ''POST''
         CartManagement_body
         8 s6) (\<lambda>(r2, s7).
      bind_ub (execute_journey_step e ''CheckoutProcess'' ''/api/process'' ''POST''
         CheckoutProcess_body
         19 s7) (\<lambda>(r3, s8).
      bind_ub (execute_journey_step e ''OrderConfirmation'' ''/api/process'' ''POST''
         OrderConfirmation_body
         12 s8) (\<lambda>(r4, s9).
      bind_ub (execute_journey_step e ''FulfillmentProcessing'' ''/api/process'' ''POST''
         FulfillmentProcessing_body
         21 s9) (\<lambda>(r5, s10).
      bind_ub (execute_journey_step e ''DeliveryTracking'' ''/api/process'' ''POST''
         DeliveryTracking_body
         8 s10) (\<lambda>(r6, s11).
      let s12 = lr_start_transaction ''Journey_Complete'' s11 in
      bind_ub (sprintf 1024
         (''VU: '' @ fmt_d (sint (lr_get_vuser_id e)) @ ''; SI: '' @ lr_get_session_id e
           @ ''; TSN: Journey_Complete; LSN: '' @ LSN s12 @ ''; LTN: '' @ LTN s12)) (\<lambda>h'.
      let s13 = s12\<lparr>dt_header := h'\<rparr>;
          s14 = web_add_header ''X-dynaTrace'' (dt_header s13) s13 in
      bind_ub (sprintf 2048
         (''{"eventType": "JOURNEY_COMPLETE","companyName": "Next","testName": "'' @ LTN s14
           @ ''","scriptName": "'' @ LSN s14
           @ ''","vuserId": '' @ fmt_d (sint (lr_get_vuser_id e))
           @ '',"sessionId": "'' @ lr_get_session_id e
           @ ''","timestamp": "2025-11-27T10:30:00.000Z","totalSteps": 6}'')) (\<lambda>request_body.
      let s15 = snd (web_custom_request e ''Journey_Summary''
                  [''URL={base_url}/api/journey-complete'', ''Method=POST'', ''Resource=0'',
                   ''RecContentType=application/json'', ''Body={request_body}''] s14);
          s16 = lr_end_transaction ''Journey_Complete'' LR_PASS s15 in
      Inr (0, s16)))))))))))\<close>

subsection \<open>Reading a trace\<close>

text \<open>
  The attributes of a request, read as the script passes them: the value of the first
  attribute string \<^verbatim>\<open>key=value\<close> with the given key. The script writes
  \<^verbatim>\<open>URL={full_url}\<close>, \<^verbatim>\<open>Body={body}\<close>, \<^verbatim>\<open>URL={base_url}/api/journey-complete\<close> and
  \<^verbatim>\<open>Body={request_body}\<close>: these texts are all the call hands to the library, and they
  are read as they stand.
\<close>

fun attribute :: "string \<Rightarrow> string list \<Rightarrow> string option" where
  "attribute k [] = None"
| "attribute k (a # rest) =
     (if take (Suc (length k)) a = k @ ''='' then Some (drop (Suc (length k)) a)
      else attribute k rest)"

definition request_attribute :: "string \<Rightarrow> event \<Rightarrow> string option" where
  "request_attribute k ev =
     (case ev of
        Custom_request n args r \<Rightarrow> attribute k args
      | _ \<Rightarrow> None)"

fun is_request :: "event \<Rightarrow> bool" where
  "is_request (Custom_request n args r) = True"
| "is_request _ = False"

definition requests :: "event list \<Rightarrow> event list" where
  "requests evs = filter is_request evs"

fun started :: "event list \<Rightarrow> string list" where
  "started [] = []"
| "started (Start_transaction n # evs) = n # started evs"
| "started (_ # evs) = started evs"

fun ended :: "event list \<Rightarrow> (string \<times> lr_status) list" where
  "ended [] = []"
| "ended (End_transaction n st # evs) = (n, st) # ended evs"
| "ended (_ # evs) = ended evs"

text \<open>The results of the step transactions, those named \<^verbatim>\<open>Step_<name>\<close>, by step name.\<close>

definition step_results :: "event list \<Rightarrow> (string \<times> lr_status) list" where
  "step_results evs =
     map (\<lambda>(n, st). (drop 5 n, st)) (filter (\<lambda>(n, st). take 5 n = ''Step_'') (ended evs))"

fun think_total :: "event list \<Rightarrow> int" where
  "think_total [] = 0"
| "think_total (Think_time t # evs) = t + think_total evs"
| "think_total (_ # evs) = think_total evs"

section \<open>The script taken apart\<close>

text \<open>
  When a call of \<^verbatim>\<open>execute_journey_step\<close> stays within defined behaviour: the three
  \<^verbatim>\<open>sprintf\<close> calls fit \<^verbatim>\<open>transaction_name[256]\<close>, \<^verbatim>\<open>dt_header[1024]\<close> and
  \<^verbatim>\<open>full_url[512]\<close>, and \<^verbatim>\<open>duration * 1000\<close> is an \<^verbatim>\<open>int\<close>.
\<close>

definition step_defined :: "env \<Rightarrow> string \<Rightarrow> string \<Rightarrow> 32 word \<Rightarrow> state \<Rightarrow> bool" where
  "step_defined e step_name endpoint duration s \<longleftrightarrow>
     length (''Step_'' @ step_name) < 256 \<and>
     length (''VU: '' @ fmt_d (sint (vuser_id e)) @ ''; SI: '' @ session_id e
        @ ''; TSN: '' @ step_name @ ''; LSN: '' @ LSN s @ ''; LTN: '' @ LTN s) < 1024 \<and>
     length (base_url s @ endpoint) < 512 \<and>
     - (2 ^ 31) \<le> sint duration * 1000 \<and> sint duration * 1000 < 2 ^ 31"

text \<open>
  The global arrays hold strings (\<^verbatim>\<open>LSN[256]\<close>, \<^verbatim>\<open>LTN[256]\<close>, \<^verbatim>\<open>base_url[256]\<close>), and
  the session id leaves room in \<^verbatim>\<open>dt_header[1024]\<close> and \<^verbatim>\<open>request_body[2048]\<close>.
\<close>

definition fits_buffers :: "env \<Rightarrow> state \<Rightarrow> bool" where
  "fits_buffers e s \<longleftrightarrow>
     length (LSN s) < 256 \<and> length (LTN s) < 256 \<and> length (base_url s) < 256 \<and>
     length (session_id e) \<le> 400"

text \<open>The test of line 140: error simulation is on and the next \<^verbatim>\<open>rand()\<close> falls below 5.\<close>

definition simulated_error :: "env \<Rightarrow> state \<Rightarrow> bool" where
  "simulated_error e s \<longleftrightarrow>
     error_simulation s \<noteq> 0 \<and> sint (rand_value e (rand_calls s)) smod 100 < 5"

text \<open>
  The events one call of \<^verbatim>\<open>execute_journey_step\<close> adds, before and after its
  \<^verbatim>\<open>lr_think_time\<close>, and the state it leaves.
\<close>

definition step_request :: "env \<Rightarrow> string \<Rightarrow> string \<Rightarrow> string \<Rightarrow> state \<Rightarrow> event" where
  "step_request e step_name endpoint body s =
     Custom_request step_name
       [''URL={full_url}'', ''Method=POST'', ''Resource=0'',
        ''RecContentType=application/json'', ''Body={body}'']
       (http_result e (http_calls s))"

definition before_wait ::
  "env \<Rightarrow> string \<Rightarrow> string \<Rightarrow> string \<Rightarrow> string \<Rightarrow> state \<Rightarrow> event list" where
  "before_wait e step_name endpoint method body s =
     [Start_transaction (''Step_'' @ step_name),
      Add_header ''X-dynaTrace''
        (''VU: '' @ fmt_d (sint (vuser_id e)) @ ''; SI: '' @ session_id e
          @ ''; TSN: '' @ step_name @ ''; LSN: '' @ LSN s @ ''; LTN: '' @ LTN s),
      Add_header ''X-LoadRunner-Step'' step_name]
     @ (if method = ''POST'' then [step_request e step_name endpoint body s] else [])"

definition after_wait :: "env \<Rightarrow> string \<Rightarrow> state \<Rightarrow> event list" where
  "after_wait e step_name s =
     (if error_simulation s \<noteq> 0 then [Rand_drawn (rand_value e (rand_calls s))] else [])
     @ (if simulated_error e s
        then [End_transaction (''Step_'' @ step_name) LR_FAIL,
              Error_message (''Simulated error in step: '' @ step_name)]
        else [End_transaction (''Step_'' @ step_name) LR_PASS])"

definition step_events ::
  "env \<Rightarrow> string \<Rightarrow> string \<Rightarrow> string \<Rightarrow> string \<Rightarrow> 32 word \<Rightarrow> state \<Rightarrow> event list" where
  "step_events e step_name endpoint method body duration s =
     before_wait e step_name endpoint method body s
       @ [Think_time (sint duration * 1000)] @ after_wait e step_name s"

definition step_post ::
  "env \<Rightarrow> string \<Rightarrow> string \<Rightarrow> string \<Rightarrow> string \<Rightarrow> 32 word \<Rightarrow> state \<Rightarrow> state" where
  "step_post e step_name endpoint method body duration s =
     s\<lparr>dt_header := ''VU: '' @ fmt_d (sint (vuser_id e)) @ ''; SI: '' @ session_id e
          @ ''; TSN: '' @ step_name @ ''; LSN: '' @ LSN s @ ''; LTN: '' @ LTN s,
       trace := trace s @ step_events e step_name endpoint method body duration s,
       rand_calls := (if error_simulation s \<noteq> 0 then Suc (rand_calls s) else rand_calls s),
       http_calls := (if method = ''POST'' then Suc (http_calls s) else http_calls s)\<rparr>"

text \<open>Lines 38 to 46 and lines 79 to 107 of \<^verbatim>\<open>Action\<close>, and the six calls between them.\<close>

definition journey_initialization :: "env \<Rightarrow> state \<Rightarrow> undefined_behaviour + state" where
  "journey_initialization e s0 =
     (let s1 = lr_start_transaction ''Journey_Initialization'' s0 in
      bind_ub (sprintf 1024
         (''VU: '' @ fmt_d (sint (lr_get_vuser_id e)) @ ''; SI: '' @ lr_get_session_id e
           @ ''; TSN: Journey_Start; LSN: '' @ LSN s1 @ ''; LTN: '' @ LTN s1)) (\<lambda>h.
      let s2 = s1\<lparr>dt_header := h\<rparr>;
          s3 = web_add_header ''X-dynaTrace'' (dt_header s2) s2;
          s4 = web_add_header ''X-LoadRunner-Company'' (company_name s3) s3;
          s5 = lr_end_transaction ''Journey_Initialization'' LR_PASS s4 in
      Inr s5))"

definition journey_complete :: "env \<Rightarrow> state \<Rightarrow> undefined_behaviour + state" where
  \<open>journey_complete e s11 =
     (let s12 = lr_start_transaction ''Journey_Complete'' s11 in
      bind_ub (sprintf 1024
         (''VU: '' @ fmt_d (sint (lr_get_vuser_id e)) @ ''; SI: '' @ lr_get_session_id e
           @ ''; TSN: Journey_Complete; LSN: '' @ LSN s12 @ ''; LTN: '' @ LTN s12)) (\<lambda>h'.
      let s13 = s12\<lparr>dt_header := h'\<rparr>;
          s14 = web_add_header ''X-dynaTrace'' (dt_header s13) s13 in
      bind_ub (sprintf 2048
         (''{"eventType": "JOURNEY_COMPLETE","companyName": "Next","testName": "'' @ LTN s14
           @ ''","scriptName": "'' @ LSN s14
           @ ''","vuserId": '' @ fmt_d (sint (lr_get_vuser_id e))
           @ '',"sessionId": "'' @ lr_get_session_id e
           @ ''","timestamp": "2025-11-27T10:30:00.000Z","totalSteps": 6}'')) (\<lambda>request_body.
      let s15 = snd (web_custom_request e ''Journey_Summary''
                  [''URL={base_url}/api/journey-complete'', ''Method=POST'', ''Resource=0'',
                   ''RecContentType=application/json'', ''Body={request_body}''] s14);
          s16 = lr_end_transaction ''Journey_Complete'' LR_PASS s15 in
      Inr s16)))\<close>

type_synonym step = "string \<times> string \<times> string \<times> string \<times> 32 word"

definition journey :: "step list" where
  "journey =
     [(''ProductDiscovery'', ''/api/process'', ''POST'', ProductDiscovery_body, 13),
      (''CartManagement'', ''/api/process'', ''POST'', CartManagement_body, 8),
      (''CheckoutProcess'', ''/api/process'', ''POST'', CheckoutProcess_body, 19),
      (''OrderConfirmation'', ''/api/process'', ''POST'', OrderConfirmation_body, 12),
      (''FulfillmentProcessing'', ''/api/process'', ''POST'', FulfillmentProcessing_body, 21),
      (''DeliveryTracking'', ''/api/process'', ''POST'', DeliveryTracking_body, 8)]"

fun run_steps :: "env \<Rightarrow> step list \<Rightarrow> state \<Rightarrow> undefined_behaviour + state" where
  "run_steps e [] s = Inr s"
| "run_steps e ((n, ep, m, b, d) # rest) s =
     bind_ub (execute_journey_step e n ep m b d s) (\<lambda>(r, s'). run_steps e rest s')"

text \<open>Steps whose name, endpoint and duration stay within the buffers and the \<^verbatim>\<open>int\<close> range.\<close>

definition step_ok :: "step \<Rightarrow> bool" where
  "step_ok st = (case st of (n, ep, m, b, d) \<Rightarrow>
     length n \<le> 21 \<and> length ep < 256 \<and> - 2147483 \<le> sint d \<and> sint d \<le> 2147483)"

fun steps_events :: "env \<Rightarrow> step list \<Rightarrow> state \<Rightarrow> event list" where
  "steps_events e [] s = []"
| "steps_events e ((n, ep, m, b, d) # rest) s =
     step_events e n ep m b d s @ steps_events e rest (step_post e n ep m b d s)"

fun steps_post :: "env \<Rightarrow> step list \<Rightarrow> state \<Rightarrow> state" where
  "steps_post e [] s = s"
| "steps_post e ((n, ep, m, b, d) # rest) s = steps_post e rest (step_post e n ep m b d s)"

definition init_events :: "env \<Rightarrow> state \<Rightarrow> event list" where
  "init_events e s =
     [Start_transaction ''Journey_Initialization'',
      Add_header ''X-dynaTrace''
        (''VU: '' @ fmt_d (sint (vuser_id e)) @ ''; SI: '' @ session_id e
          @ ''; TSN: Journey_Start; LSN: '' @ LSN s @ ''; LTN: '' @ LTN s),
      Add_header ''X-LoadRunner-Company'' (company_name s),
      End_transaction ''Journey_Initialization'' LR_PASS]"

definition init_post :: "env \<Rightarrow> state \<Rightarrow> state" where
  "init_post e s =
     s\<lparr>dt_header := ''VU: '' @ fmt_d (sint (vuser_id e)) @ ''; SI: '' @ session_id e
          @ ''; TSN: Journey_Start; LSN: '' @ LSN s @ ''; LTN: '' @ LTN s,
       trace := trace s @ init_events e s\<rparr>"

text \<open>The text lines 85 to 97 of \<^verbatim>\<open>Action\<close> format into the local array \<^verbatim>\<open>request_body\<close>.\<close>

definition summary_body :: "env \<Rightarrow> state \<Rightarrow> string" where
  \<open>summary_body e s =
     ''{"eventType": "JOURNEY_COMPLETE","companyName": "Next","testName": "'' @ LTN s
       @ ''","scriptName": "'' @ LSN s
       @ ''","vuserId": '' @ fmt_d (sint (vuser_id e))
       @ '',"sessionId": "'' @ session_id e
       @ ''","timestamp": "2025-11-27T10:30:00.000Z","totalSteps": 6}''\<close>

definition summary_request :: "env \<Rightarrow> state \<Rightarrow> event" where
  "summary_request e s =
     Custom_request ''Journey_Summary''
       [''URL={base_url}/api/journey-complete'', ''Method=POST'', ''Resource=0'',
        ''RecContentType=application/json'', ''Body={request_body}'']
       (http_result e (http_calls s))"

definition complete_events :: "env \<Rightarrow> state \<Rightarrow> event list" where
  "complete_events e s =
     [Start_transaction ''Journey_Complete'',
      Add_header ''X-dynaTrace''
        (''VU: '' @ fmt_d (sint (vuser_id e)) @ ''; SI: '' @ session_id e
          @ ''; TSN: Journey_Complete; LSN: '' @ LSN s @ ''; LTN: '' @ LTN s),
      summary_request e s,
      End_transaction ''Journey_Complete'' LR_PASS]"

definition complete_post :: "env \<Rightarrow> state \<Rightarrow> state" where
  "complete_post e s =
     s\<lparr>dt_header := ''VU: '' @ fmt_d (sint (vuser_id e)) @ ''; SI: '' @ session_id e
          @ ''; TSN: Journey_Complete; LSN: '' @ LSN s @ ''; LTN: '' @ LTN s,
       trace := trace s @ complete_events e s,
       http_calls := Suc (http_calls s)\<rparr>"

definition journey_events :: "env \<Rightarrow> state \<Rightarrow> event list" where
  "journey_events e s0 =
     init_events e s0 @ steps_events e journey (init_post e s0)
       @ complete_events e (steps_post e journey (init_post e s0))"

subsection \<open>More ways to read a trace and a result\<close>

fun request_status :: "event \<Rightarrow> lr_status option" where
  "request_status (Custom_request n args r) = Some r"
| "request_status _ = None"

fun headers :: "event list \<Rightarrow> (string \<times> string) list" where
  "headers [] = []"
| "headers (Add_header n v # evs) = (n, v) # headers evs"
| "headers (_ # evs) = headers evs"

text \<open>
  The summary request: the request named \<^verbatim>\<open>Journey_Summary\<close> with the attributes
  \<^verbatim>\<open>URL={base_url}/api/journey-complete\<close> and \<^verbatim>\<open>Method=POST\<close>.
\<close>

definition is_summary :: "event \<Rightarrow> bool" where
  "is_summary ev \<longleftrightarrow>
     (case ev of
        Custom_request n args r \<Rightarrow>
          n = ''Journey_Summary'' \<and>
          attribute ''URL'' args = Some ''{base_url}/api/journey-complete'' \<and>
          attribute ''Method'' args = Some ''POST''
      | _ \<Rightarrow> False)"

text \<open>What a call of \<^verbatim>\<open>execute_journey_step\<close> returns, if it returns.\<close>

definition returned :: "undefined_behaviour + (lr_status \<times> state) \<Rightarrow> lr_status option" where
  "returned res = (case res of Inl u \<Rightarrow> None | Inr (r, s) \<Rightarrow> Some r)"

subsection \<open>The specification's words\<close>

text \<open>
  A JSON object with the given members in the given order, as section 6 of the
  specification writes the body of the summary event; member values are given as
  written in JSON, and a string value is put between quotes as it is.
\<close>

definition json_string :: "string \<Rightarrow> string" where
  \<open>json_string v = ''"'' @ v @ ''"''\<close>

fun json_members :: "(string \<times> string) list \<Rightarrow> string" where
  "json_members [] = []"
| "json_members [(k, v)] = json_string k @ '': '' @ v"
| "json_members ((k, v) # kvs) = json_string k @ '': '' @ v @ '','' @ json_members kvs"

definition json_object :: "(string \<times> string) list \<Rightarrow> string" where
  "json_object kvs = ''{'' @ json_members kvs @ ''}''"

text \<open>
  The header of section 6 of the specification, in its words: name \<^verbatim>\<open>X-Correlation\<close>,
  value \<^verbatim>\<open>VU=<id>; Session=<id>; Step=<name>; Script=<LSN>; Test=<LTN>\<close>.
\<close>

definition spec_correlation_header ::
  "int \<Rightarrow> string \<Rightarrow> string \<Rightarrow> string \<Rightarrow> string \<Rightarrow> string \<times> string" where
  "spec_correlation_header vu sid step_name lsn ltn =
     (''X-Correlation'',
      ''VU='' @ fmt_d vu @ ''; Session='' @ sid @ ''; Step='' @ step_name
        @ ''; Script='' @ lsn @ ''; Test='' @ ltn)"

subsection \<open>Two virtual users\<close>

text \<open>
  A virtual user whose requests all succeed and whose third \<^verbatim>\<open>rand()\<close> is 3, and one
  whose requests all fail and whose \<^verbatim>\<open>rand()\<close> is always 0.
\<close>

definition vuser_7 :: env where
  "vuser_7 =
     \<lparr>vuser_id = 7, session_id = ''abc'',
      rand_value = (\<lambda>k. if k = 2 then 3 else 50),
      http_result = (\<lambda>k. LR_PASS)\<rparr>"

definition vuser_offline :: env where
  "vuser_offline =
     \<lparr>vuser_id = 7, session_id = ''abc'',
      rand_value = (\<lambda>k. 0),
      http_result = (\<lambda>k. LR_FAIL)\<rparr>"

section \<open>Effect of each part of the script\<close>

lemma bind_ub_Inr [simp]: "bind_ub (Inr x) f = f x"
  by (simp add: bind_ub_def)

lemma bind_ub_Inl [simp]: "bind_ub (Inl u) f = Inl u"
  by (simp add: bind_ub_def)

lemma bind_ub_assoc: "bind_ub (bind_ub m f) g = bind_ub m (\<lambda>x. bind_ub (f x) g)"
  by (cases m) simp_all

lemma dec_nat_length: "n < 10 ^ Suc k \<Longrightarrow> length (dec_nat n) \<le> Suc k"
proof (induction k arbitrary: n)
  case 0
  then show ?case by (simp add: dec_nat.simps)
next
  case (Suc k)
  show ?case
  proof (cases "n < 10")
    case True
    then show ?thesis by (simp add: dec_nat.simps)
  next
    case False
    from Suc.prems have "n div 10 < 10 ^ Suc k"
      by (simp add: less_mult_imp_div_less mult.commute)
    then have "length (dec_nat (n div 10)) \<le> Suc k" by (rule Suc.IH)
    with False show ?thesis by (subst dec_nat.simps) simp
  qed
qed

lemma fmt_d_length: "length (fmt_d (sint (w :: 32 word))) \<le> 11"
proof -
  have lo: "- (2 ^ 31) \<le> sint w" and hi: "sint w < 2 ^ 31"
    using sint_ge [of w] sint_lt [of w] by simp_all
  have "nat \<bar>sint w\<bar> < 10 ^ Suc 9" using lo hi by simp
  then have "length (dec_nat (nat \<bar>sint w\<bar>)) \<le> 10"
    using dec_nat_length [of "nat \<bar>sint w\<bar>" 9] by simp
  then show ?thesis by (auto simp: fmt_d_def abs_if split: if_splits)
qed

lemma int_mul_1000:
  "- (2 ^ 31) \<le> sint d * 1000 \<Longrightarrow> sint d * 1000 < 2 ^ 31 \<Longrightarrow>
   int_mul d 1000 = Inr (d * 1000) \<and> sint (d * 1000 :: 32 word) = sint d * 1000"
  by (simp add: int_mul_def sint_word_ariths signed_take_bit_int_eq_self)

lemma execute_journey_step_effect:
  assumes "step_defined e step_name endpoint duration s"
  shows "execute_journey_step e step_name endpoint method body duration s =
           Inr (if simulated_error e s then LR_FAIL else LR_PASS,
                step_post e step_name endpoint method body duration s)"
proof -
  from assms have m: "int_mul duration 1000 = Inr (duration * 1000)"
    and v: "sint (duration * 1000) = sint duration * 1000"
    using int_mul_1000 [of duration] by (simp_all add: step_defined_def)
  from assms have
    "sprintf 256 (''Step_'' @ step_name) = Inr (''Step_'' @ step_name)"
    "sprintf 1024 (''VU: '' @ fmt_d (sint (vuser_id e)) @ ''; SI: '' @ session_id e
        @ ''; TSN: '' @ step_name @ ''; LSN: '' @ LSN s @ ''; LTN: '' @ LTN s)
      = Inr (''VU: '' @ fmt_d (sint (vuser_id e)) @ ''; SI: '' @ session_id e
        @ ''; TSN: '' @ step_name @ ''; LSN: '' @ LSN s @ ''; LTN: '' @ LTN s)"
    "sprintf 512 (base_url s @ endpoint) = Inr (base_url s @ endpoint)"
    by (simp_all add: step_defined_def sprintf_def)
  then show ?thesis
    by (cases "method = ''POST''"; cases "error_simulation s = 0";
        cases "sint (rand_value e (rand_calls s)) smod 100 < 5")
      (simp_all add: execute_journey_step_def m v Let_def step_post_def step_events_def
        before_wait_def after_wait_def step_request_def simulated_error_def lr_start_transaction_def lr_end_transaction_def
        web_add_header_def lr_think_time_def lr_error_message_def web_custom_request_def
        rand_def log_event_def lr_get_vuser_id_def lr_get_session_id_def)
qed

lemma execute_journey_step_undefined:
  assumes "\<not> step_defined e step_name endpoint duration s"
  shows "\<exists>u. execute_journey_step e step_name endpoint method body duration s = Inl u"
  using assms
  by (auto simp: execute_journey_step_def step_defined_def sprintf_def int_mul_def Let_def
      lr_start_transaction_def web_add_header_def log_event_def
      lr_get_vuser_id_def lr_get_session_id_def)

lemma step_defined_iff:
  "step_defined e n ep d s \<longleftrightarrow> (\<exists>r. execute_journey_step e n ep m b d s = Inr r)"
  using execute_journey_step_effect [of e n ep d s m b]
    execute_journey_step_undefined [of e n ep d s m b]
  by (cases "step_defined e n ep d s") auto

lemma Action_apart:
  "Action e s0 =
     bind_ub (journey_initialization e s0) (\<lambda>s5.
     bind_ub (run_steps e journey s5) (\<lambda>s11.
     bind_ub (journey_complete e s11) (\<lambda>s16. Inr (0, s16))))"
  by (simp add: Action_def journey_initialization_def journey_complete_def journey_def
      Let_def bind_ub_assoc split_def)

lemma fits_buffers_step:
  assumes "fits_buffers e s" and "step_ok (n, ep, m, b, d)"
  shows "step_defined e n ep d s"
  using assms fmt_d_length [of "vuser_id e"]
  by (simp add: fits_buffers_def step_ok_def step_defined_def)

lemma step_post_fields [simp]:
  "LSN (step_post e n ep m b d s) = LSN s"
  "LTN (step_post e n ep m b d s) = LTN s"
  "base_url (step_post e n ep m b d s) = base_url s"
  "company_name (step_post e n ep m b d s) = company_name s"
  "error_simulation (step_post e n ep m b d s) = error_simulation s"
  "trace (step_post e n ep m b d s) = trace s @ step_events e n ep m b d s"
  by (simp_all add: step_post_def)

lemma fits_buffers_step_post [simp]:
  "fits_buffers e (step_post e' n ep m b d s) = fits_buffers e s"
  by (simp add: fits_buffers_def)

lemma steps_post_fields [simp]:
  "LSN (steps_post e steps s) = LSN s"
  "LTN (steps_post e steps s) = LTN s"
  "base_url (steps_post e steps s) = base_url s"
  "company_name (steps_post e steps s) = company_name s"
  "error_simulation (steps_post e steps s) = error_simulation s"
  by (induction e steps s rule: steps_post.induct; simp)+

lemma trace_steps_post [simp]:
  "trace (steps_post e steps s) = trace s @ steps_events e steps s"
  by (induction e steps s rule: steps_post.induct) simp_all

lemma fits_buffers_steps_post [simp]:
  "fits_buffers e (steps_post e' steps s) = fits_buffers e s"
  by (simp add: fits_buffers_def)

lemma init_post_fields [simp]:
  "LSN (init_post e s) = LSN s"
  "LTN (init_post e s) = LTN s"
  "base_url (init_post e s) = base_url s"
  "company_name (init_post e s) = company_name s"
  "error_simulation (init_post e s) = error_simulation s"
  "http_calls (init_post e s) = http_calls s"
  "rand_calls (init_post e s) = rand_calls s"
  "trace (init_post e s) = trace s @ init_events e s"
  by (simp_all add: init_post_def)

lemma fits_buffers_init_post [simp]:
  "fits_buffers e (init_post e' s) = fits_buffers e s"
  by (simp add: fits_buffers_def)

lemma trace_complete_post [simp]:
  "trace (complete_post e s) = trace s @ complete_events e s"
  by (simp add: complete_post_def)

lemma run_steps_effect:
  "fits_buffers e s \<Longrightarrow> list_all step_ok steps \<Longrightarrow>
   run_steps e steps s = Inr (steps_post e steps s)"
proof (induction steps arbitrary: s)
  case Nil
  show ?case by simp
next
  case (Cons st steps)
  obtain n ep m b d where st: "st = (n, ep, m, b, d)" by (cases st)
  from Cons.prems have "step_defined e n ep d s"
    by (auto simp: st intro: fits_buffers_step)
  then have "execute_journey_step e n ep m b d s =
      Inr (if simulated_error e s then LR_FAIL else LR_PASS, step_post e n ep m b d s)"
    by (rule execute_journey_step_effect)
  moreover have "run_steps e steps (step_post e n ep m b d s)
      = Inr (steps_post e steps (step_post e n ep m b d s))"
    using Cons.prems by (intro Cons.IH) simp_all
  ultimately show ?case by (simp add: st)
qed

lemma journey_initialization_effect:
  assumes "fits_buffers e s"
  shows "journey_initialization e s = Inr (init_post e s)"
  using assms fmt_d_length [of "vuser_id e"]
  by (simp add: fits_buffers_def journey_initialization_def sprintf_def init_post_def
      init_events_def lr_start_transaction_def lr_end_transaction_def web_add_header_def
      log_event_def lr_get_vuser_id_def lr_get_session_id_def)

lemma journey_complete_effect:
  assumes "fits_buffers e s"
  shows "journey_complete e s = Inr (complete_post e s)"
  using assms fmt_d_length [of "vuser_id e"]
  by (simp add: fits_buffers_def journey_complete_def sprintf_def complete_post_def
      complete_events_def summary_request_def summary_body_def lr_start_transaction_def
      lr_end_transaction_def web_add_header_def web_custom_request_def log_event_def
      lr_get_vuser_id_def lr_get_session_id_def Let_def)

lemma list_all_step_ok_journey: "list_all step_ok journey"
  by (simp add: journey_def step_ok_def)

lemma Action_effect:
  assumes "fits_buffers e s0"
  shows "\<exists>s. Action e s0 = Inr (0, s) \<and> trace s = trace s0 @ journey_events e s0"
proof -
  have "journey_initialization e s0 = Inr (init_post e s0)"
    using assms by (rule journey_initialization_effect)
  moreover have "run_steps e journey (init_post e s0)
      = Inr (steps_post e journey (init_post e s0))"
    using assms by (intro run_steps_effect list_all_step_ok_journey) simp
  moreover have "journey_complete e (steps_post e journey (init_post e s0))
      = Inr (complete_post e (steps_post e journey (init_post e s0)))"
    using assms by (intro journey_complete_effect) simp
  ultimately have "Action e s0
      = Inr (0, complete_post e (steps_post e journey (init_post e s0)))"
    by (simp add: Action_apart)
  then show ?thesis by (simp add: journey_events_def)
qed

subsection \<open>Reading the events of a step and of the journey\<close>

lemma started_append: "started (xs @ ys) = started xs @ started ys"
  by (induction xs rule: started.induct) simp_all

lemma ended_append: "ended (xs @ ys) = ended xs @ ended ys"
  by (induction xs rule: ended.induct) simp_all

lemma step_results_Nil [simp]: "step_results [] = []"
  by (simp add: step_results_def)

lemma step_results_append: "step_results (xs @ ys) = step_results xs @ step_results ys"
  by (simp add: step_results_def ended_append)

lemma requests_append: "requests (xs @ ys) = requests xs @ requests ys"
  by (simp add: requests_def)

lemma requests_simps [simp]:
  "requests [] = []"
  "requests (ev # evs) = (if is_request ev then ev # requests evs else requests evs)"
  by (simp_all add: requests_def)

lemma think_total_append: "think_total (xs @ ys) = think_total xs + think_total ys"
  by (induction xs rule: think_total.induct) simp_all

lemma before_wait_read [simp]:
  "started (before_wait e n ep m b s) = [''Step_'' @ n]"
  "ended (before_wait e n ep m b s) = []"
  "think_total (before_wait e n ep m b s) = 0"
  "requests (before_wait e n ep m b s) = (if m = ''POST'' then [step_request e n ep b s] else [])"
  by (simp_all add: before_wait_def step_request_def)

lemma after_wait_read [simp]:
  "started (after_wait e n s) = []"
  "ended (after_wait e n s) = [(''Step_'' @ n, if simulated_error e s then LR_FAIL else LR_PASS)]"
  "think_total (after_wait e n s) = 0"
  "requests (after_wait e n s) = []"
  by (simp_all add: after_wait_def requests_append)

lemma started_step_events:
  "started (step_events e n ep m b d s) = [''Step_'' @ n]"
  by (simp add: step_events_def started_append)

lemma ended_step_events:
  "ended (step_events e n ep m b d s) =
     [(''Step_'' @ n, if simulated_error e s then LR_FAIL else LR_PASS)]"
  by (simp add: step_events_def ended_append)

lemma step_results_step_events:
  "step_results (step_events e n ep m b d s) =
     [(n, if simulated_error e s then LR_FAIL else LR_PASS)]"
  by (simp add: step_results_def ended_step_events)

lemma requests_step_events:
  "requests (step_events e n ep m b d s) =
     (if m = ''POST'' then [step_request e n ep b s] else [])"
  by (simp add: step_events_def requests_append)

lemma step_request_read [simp]:
  "is_request (step_request e n ep b s)"
  "request_attribute ''URL'' (step_request e n ep b s) = Some ''{full_url}''"
  "request_attribute ''Method'' (step_request e n ep b s) = Some ''POST''"
  "request_attribute ''Body'' (step_request e n ep b s) = Some ''{body}''"
  "\<not> is_summary (step_request e n ep b s)"
  by (simp_all add: step_request_def request_attribute_def is_summary_def)

lemma summary_request_read [simp]:
  "is_request (summary_request e s)"
  "request_attribute ''URL'' (summary_request e s) = Some ''{base_url}/api/journey-complete''"
  "request_attribute ''Method'' (summary_request e s) = Some ''POST''"
  "request_attribute ''Body'' (summary_request e s) = Some ''{request_body}''"
  "is_summary (summary_request e s)"
  by (simp_all add: summary_request_def request_attribute_def is_summary_def)

lemma think_total_step_events:
  "think_total (step_events e n ep m b d s) = sint d * 1000"
  by (simp add: step_events_def think_total_append)

lemma started_steps_events:
  "started (steps_events e steps s) = map (\<lambda>st. ''Step_'' @ fst st) steps"
  by (induction e steps s rule: steps_events.induct)
    (simp_all add: started_append started_step_events)

lemma ended_names_steps_events:
  "map fst (ended (steps_events e steps s)) = map (\<lambda>st. ''Step_'' @ fst st) steps"
  by (induction e steps s rule: steps_events.induct)
    (simp_all add: ended_append ended_step_events)

lemma step_results_steps_events:
  "map fst (step_results (steps_events e steps s)) = map fst steps"
  by (induction e steps s rule: steps_events.induct)
    (simp_all add: step_results_append step_results_step_events)

lemma step_results_init_events [simp]: "step_results (init_events e s) = []"
  by (simp add: init_events_def step_results_def)

lemma step_results_complete_events [simp]: "step_results (complete_events e s) = []"
  by (simp add: complete_events_def summary_request_def step_results_def)


lemma is_summary_request: "is_summary ev \<Longrightarrow> is_request ev"
  by (cases ev) (simp_all add: is_summary_def)

lemma filter_is_summary_requests:
  "filter is_summary evs = filter is_summary (requests evs)"
  by (induction evs) (auto dest: is_summary_request)

lemma summary_free_steps_events:
  "filter is_summary (steps_events e steps s) = []"
proof (induction e steps s rule: steps_events.induct)
  case (1 e s)
  show ?case by simp
next
  case (2 e n ep m b d rest s)
  have "filter is_summary (step_events e n ep m b d s) = []"
    by (subst filter_is_summary_requests) (simp add: requests_step_events)
  with "2.IH" show ?case by simp
qed

lemma journey_events_end:
  "journey_events e s0 =
     (init_events e s0 @ steps_events e journey (init_post e s0)
       @ [Start_transaction ''Journey_Complete'',
          Add_header ''X-dynaTrace''
            (''VU: '' @ fmt_d (sint (vuser_id e)) @ ''; SI: '' @ session_id e
              @ ''; TSN: Journey_Complete; LSN: '' @ LSN s0 @ ''; LTN: '' @ LTN s0)])
     @ [summary_request e (steps_post e journey (init_post e s0)),
        End_transaction ''Journey_Complete'' LR_PASS]"
  by (simp add: journey_events_def complete_events_def)

lemma summary_body_json:
  "summary_body e s =
     json_object
       [(''eventType'', json_string ''JOURNEY_COMPLETE''),
        (''companyName'', json_string ''Next''),
        (''testName'', json_string (LTN s)),
        (''scriptName'', json_string (LSN s)),
        (''vuserId'', fmt_d (sint (vuser_id e))),
        (''sessionId'', json_string (session_id e)),
        (''timestamp'', json_string ''2025-11-27T10:30:00.000Z''),
        (''totalSteps'', ''6'')]"
  by (simp add: summary_body_def json_object_def json_string_def)

lemma requests_steps_events:
  "length (requests (steps_events e steps s)) = length (filter (\<lambda>st. fst (snd (snd st)) = ''POST'') steps)"
  by (induction e steps s rule: steps_events.induct)
    (simp_all add: requests_append requests_step_events)

lemma requests_journey_events:
  "requests (journey_events e s0) =
     requests (steps_events e journey (init_post e s0))
       @ [summary_request e (steps_post e journey (init_post e s0))]"
  by (simp add: journey_events_def requests_append init_events_def complete_events_def)

lemma started_journey_events:
  "started (journey_events e s0) =
     [''Journey_Initialization'', ''Step_ProductDiscovery'', ''Step_CartManagement'',
      ''Step_CheckoutProcess'', ''Step_OrderConfirmation'', ''Step_FulfillmentProcessing'',
      ''Step_DeliveryTracking'', ''Journey_Complete'']"
proof -
  have "started (journey_events e s0) =
      ''Journey_Initialization'' # map (\<lambda>st. ''Step_'' @ fst st) journey @ [''Journey_Complete'']"
    by (simp add: journey_events_def started_append started_steps_events init_events_def
        complete_events_def summary_request_def)
  then show ?thesis by (simp add: journey_def)
qed

lemma ended_journey_events:
  "map fst (ended (journey_events e s0)) = started (journey_events e s0)"
  by (simp add: journey_events_def started_append ended_append started_steps_events
      ended_names_steps_events init_events_def complete_events_def summary_request_def)

lemma step_defined_env [simp]:
  "step_defined (e\<lparr>http_result := h\<rparr>) n ep d s = step_defined e n ep d s"
  "step_defined (e\<lparr>rand_value := g\<rparr>) n ep d s = step_defined e n ep d s"
  by (simp_all add: step_defined_def)

lemma simulated_error_http [simp]:
  "simulated_error (e\<lparr>http_result := h\<rparr>) s = simulated_error e s"
  by (simp add: simulated_error_def)

lemma request_status_step_request [simp]:
  "request_status (step_request e n ep b s) = Some (http_result e (http_calls s))"
  by (simp add: step_request_def)

lemma fmt_d_7: "fmt_d 7 = ''7''"
  by (simp add: fmt_d_def dec_nat.simps)

lemma sint_of_nat_small: "k < 100 \<Longrightarrow> sint (of_nat k :: 32 word) = int k"
  by (simp add: signed_of_nat signed_take_bit_int_eq_self)

lemma smod_100_small: "k < 100 \<Longrightarrow> (int k smod 100 < 5) = (k < 5)"
  by (auto simp: signed_modulo_int_def sgn_if)

lemma five_of_hundred: "length (filter (\<lambda>k::nat. k < 5) [0..<100]) = 5"
  by code_simp

lemma returned_step:
  assumes "step_defined e n ep d s"
  shows "returned (execute_journey_step e n ep m b d s)
       = Some (if simulated_error e s then LR_FAIL else LR_PASS)"
  by (simp add: execute_journey_step_effect [OF assms] returned_def)

lemma headers_append: "headers (xs @ ys) = headers xs @ headers ys"
  by (induction xs rule: headers.induct) simp_all

lemma headers_after_wait [simp]: "headers (after_wait e n s) = []"
  by (simp add: after_wait_def headers_append)

lemma all_steps_fail:
  assumes "\<And>k. sint (rand_value e k) smod 100 < 5"
  shows "error_simulation s \<noteq> 0 \<Longrightarrow>
    map snd (step_results (steps_events e steps s)) = replicate (length steps) LR_FAIL"
proof (induction steps arbitrary: s)
  case Nil
  show ?case by simp
next
  case (Cons st steps)
  obtain n ep m b d where st: "st = (n, ep, m, b, d)" by (cases st)
  from Cons.prems have "simulated_error e s"
    by (simp add: simulated_error_def assms)
  moreover from Cons.prems
  have "map snd (step_results (steps_events e steps (step_post e n ep m b d s)))
      = replicate (length steps) LR_FAIL"
    by (intro Cons.IH) simp
  ultimately show ?case
    by (simp add: st step_results_append step_results_step_events)
qed

lemma all_requests_fail:
  assumes "\<And>k. http_result e k = LR_FAIL"
  shows "map request_status (requests (steps_events e steps s))
       = replicate (length (filter (\<lambda>st. fst (snd (snd st)) = ''POST'') steps)) (Some LR_FAIL)"
proof (induction steps arbitrary: s)
  case Nil
  show ?case by simp
next
  case (Cons st steps)
  obtain n ep m b d where st: "st = (n, ep, m, b, d)" by (cases st)
  show ?case
    by (simp add: st requests_append requests_step_events assms Cons.IH)
qed

lemma step_results_journey_events:
  "step_results (journey_events e s0) = step_results (steps_events e journey (init_post e s0))"
  by (simp add: journey_events_def step_results_append)

lemma request_status_summary_request [simp]:
  "request_status (summary_request e s) = Some (http_result e (http_calls s))"
  by (simp add: summary_request_def)

lemma all_steps_pass:
  "error_simulation s = 0 \<Longrightarrow>
   step_results (steps_events e steps s) = map (\<lambda>st. (fst st, LR_PASS)) steps"
  by (induction e steps s rule: steps_events.induct)
    (simp_all add: step_results_append step_results_step_events simulated_error_def)

section \<open>The claims\<close>



text \<open>
  C2. For every run, whatever the requests return and whatever steps error simulation
  fails, \<^verbatim>\<open>Action\<close> runs to its end and returns 0, and the summary request (the request
  \<^verbatim>\<open>Journey_Summary\<close>, a POST with the URL attribute \<^verbatim>\<open>{base_url}/api/journey-complete\<close>)
  is made exactly once, as the last call before the transaction Journey\_Complete ends,
  after all six steps.
\<close>

theorem Action_summary_once:
  assumes "fits_buffers e s0"
  shows "\<exists>s pre req. Action e s0 = Inr (0, s) \<and>
           trace s = trace s0 @ pre @ [req, End_transaction ''Journey_Complete'' LR_PASS] \<and>
           is_summary req \<and>
           filter is_summary pre = [] \<and>
           length (step_results pre) = 6"
proof -
  let ?pre = "init_events e s0 @ steps_events e journey (init_post e s0)
       @ [Start_transaction ''Journey_Complete'',
          Add_header ''X-dynaTrace''
            (''VU: '' @ fmt_d (sint (vuser_id e)) @ ''; SI: '' @ session_id e
              @ ''; TSN: Journey_Complete; LSN: '' @ LSN s0 @ ''; LTN: '' @ LTN s0)]"
  let ?req = "summary_request e (steps_post e journey (init_post e s0))"
  from assms obtain s where s: "Action e s0 = Inr (0, s)"
    and t: "trace s = trace s0 @ journey_events e s0"
    using Action_effect by blast
  have free: "filter is_summary ?pre = []"
    by (simp add: summary_free_steps_events init_events_def is_summary_def)
  have "map fst (step_results ?pre) = map fst journey"
    by (simp add: step_results_append step_results_steps_events) (simp add: step_results_def)
  then have "length (map fst (step_results ?pre)) = length (map fst journey)"
    by (rule arg_cong)
  then have len: "length (step_results ?pre) = 6"
    by (simp add: journey_def)
  show ?thesis
  proof (intro exI conjI)
    show "Action e s0 = Inr (0, s)" by (fact s)
    show "trace s = trace s0 @ ?pre @ [?req, End_transaction ''Journey_Complete'' LR_PASS]"
      using t by (simp only: journey_events_end)
    show "is_summary ?req" by simp
    show "filter is_summary ?pre = []" by (fact free)
    show "length (step_results ?pre) = 6" by (fact len)
  qed
qed

text \<open>A run in which every request fails and error simulation fails every step.\<close>

theorem Action_summary_once_witness:
  "fits_buffers vuser_offline init_state \<and>
   (\<exists>s pre req. Action vuser_offline init_state = Inr (0, s) \<and>
           trace s = trace init_state @ pre @ [req, End_transaction ''Journey_Complete'' LR_PASS] \<and>
           is_summary req \<and>
           filter is_summary pre = [] \<and>
           length (step_results pre) = 6) \<and>
   (\<exists>s. Action vuser_offline init_state = Inr (0, s) \<and>
        map snd (step_results (trace s)) = [LR_FAIL, LR_FAIL, LR_FAIL, LR_FAIL, LR_FAIL, LR_FAIL] \<and>
        map request_status (requests (trace s)) = [Some LR_FAIL, Some LR_FAIL, Some LR_FAIL, Some LR_FAIL, Some LR_FAIL, Some LR_FAIL,
           Some LR_FAIL])"
proof -
  have h: "fits_buffers vuser_offline init_state"
    by (simp add: fits_buffers_def vuser_offline_def init_state_def)
  from Action_effect [OF h] obtain s where s: "Action vuser_offline init_state = Inr (0, s)"
    and t: "trace s = trace init_state @ journey_events vuser_offline init_state"
    by blast
  have t': "trace s = journey_events vuser_offline init_state"
    using t by (simp add: init_state_def)
  have r: "sint (rand_value vuser_offline k) smod 100 < 5" for k
    by (simp add: vuser_offline_def)
  have f: "http_result vuser_offline k = LR_FAIL" for k
    by (simp add: vuser_offline_def)
  have es: "error_simulation (init_post vuser_offline init_state) \<noteq> 0"
    by (simp add: init_state_def)
  have "map snd (step_results (trace s)) = replicate (length journey) LR_FAIL"
    by (simp only: t' step_results_journey_events all_steps_fail [OF r es])
  then have a: "map snd (step_results (trace s)) = [LR_FAIL, LR_FAIL, LR_FAIL, LR_FAIL, LR_FAIL, LR_FAIL]"
    by (simp add: journey_def)
  have "map request_status (requests (trace s))
      = replicate (length (filter (\<lambda>st. fst (snd (snd st)) = ''POST'') journey)) (Some LR_FAIL)
          @ [Some LR_FAIL]"
    by (simp add: t' requests_journey_events all_requests_fail [OF f] f)
  then have b: "map request_status (requests (trace s)) = [Some LR_FAIL, Some LR_FAIL, Some LR_FAIL, Some LR_FAIL, Some LR_FAIL, Some LR_FAIL,
           Some LR_FAIL]"
    by (simp add: journey_def)
  from s a b have "\<exists>s. Action vuser_offline init_state = Inr (0, s) \<and>
        map snd (step_results (trace s)) = [LR_FAIL, LR_FAIL, LR_FAIL, LR_FAIL, LR_FAIL, LR_FAIL] \<and>
        map request_status (requests (trace s)) = [Some LR_FAIL, Some LR_FAIL, Some LR_FAIL, Some LR_FAIL, Some LR_FAIL, Some LR_FAIL,
           Some LR_FAIL]"
    by (intro exI conjI)
  with h Action_summary_once [OF h] show ?thesis by (intro conjI)
qed

text \<open>
  C3, as the script has it. With error simulation disabled a step is marked passed
  whatever its request returns: the status of \<^verbatim>\<open>web_custom_request\<close> is not looked at,
  the transaction ends with \<^verbatim>\<open>LR_PASS\<close> and the call returns \<^verbatim>\<open>LR_PASS\<close> to the runner,
  which goes on: all six steps of a run are marked passed.
\<close>

theorem step_passes_without_simulation:
  assumes "error_simulation s = 0"
  shows "(step_defined e n ep d s \<longrightarrow>
           (\<exists>s' evs. execute_journey_step (e\<lparr>http_result := h\<rparr>) n ep m b d s = Inr (LR_PASS, s') \<and>
              trace s' = trace s @ evs \<and>
              ended evs = [(''Step_'' @ n, LR_PASS)] \<and>
              map request_status (requests evs) =
                (if m = ''POST'' then [Some (h (http_calls s))] else []))) \<and>
         (fits_buffers e s \<longrightarrow>
           (\<exists>s' evs. Action (e\<lparr>http_result := h\<rparr>) s = Inr (0, s') \<and>
              trace s' = trace s @ evs \<and>
              step_results evs =
                [(''ProductDiscovery'', LR_PASS), (''CartManagement'', LR_PASS),
                 (''CheckoutProcess'', LR_PASS), (''OrderConfirmation'', LR_PASS),
                 (''FulfillmentProcessing'', LR_PASS), (''DeliveryTracking'', LR_PASS)]))"
proof (intro conjI impI)
  let ?e = "e\<lparr>http_result := h\<rparr>"
  assume "step_defined e n ep d s"
  then have "step_defined ?e n ep d s" by simp
  then have eff: "execute_journey_step ?e n ep m b d s
      = Inr (if simulated_error ?e s then LR_FAIL else LR_PASS, step_post ?e n ep m b d s)"
    by (rule execute_journey_step_effect)
  from assms have ok: "\<not> simulated_error ?e s"
    by (simp add: simulated_error_def)
  show "\<exists>s' evs. execute_journey_step ?e n ep m b d s = Inr (LR_PASS, s') \<and>
      trace s' = trace s @ evs \<and> ended evs = [(''Step_'' @ n, LR_PASS)] \<and>
      map request_status (requests evs) = (if m = ''POST'' then [Some (h (http_calls s))] else [])"
  proof (intro exI conjI)
    show "execute_journey_step ?e n ep m b d s = Inr (LR_PASS, step_post ?e n ep m b d s)"
      using eff ok by simp
    show "trace (step_post ?e n ep m b d s) = trace s @ step_events ?e n ep m b d s"
      by simp
    show "ended (step_events ?e n ep m b d s) = [(''Step_'' @ n, LR_PASS)]"
      using ok by (simp add: ended_step_events)
    show "map request_status (requests (step_events ?e n ep m b d s))
        = (if m = ''POST'' then [Some (h (http_calls s))] else [])"
      by (simp add: requests_step_events)
  qed
next
  let ?e = "e\<lparr>http_result := h\<rparr>"
  assume "fits_buffers e s"
  then have "fits_buffers ?e s" by (simp add: fits_buffers_def)
  then obtain s' where s': "Action ?e s = Inr (0, s')"
    and t: "trace s' = trace s @ journey_events ?e s"
    using Action_effect by blast
  from assms have "step_results (journey_events ?e s) = map (\<lambda>st. (fst st, LR_PASS)) journey"
    by (simp add: step_results_journey_events all_steps_pass)
  then have r: "step_results (journey_events ?e s) =
      [(''ProductDiscovery'', LR_PASS), (''CartManagement'', LR_PASS),
       (''CheckoutProcess'', LR_PASS), (''OrderConfirmation'', LR_PASS),
       (''FulfillmentProcessing'', LR_PASS), (''DeliveryTracking'', LR_PASS)]"
    by (simp add: journey_def)
  from s' t r show "\<exists>s' evs. Action ?e s = Inr (0, s') \<and> trace s' = trace s @ evs \<and>
      step_results evs =
        [(''ProductDiscovery'', LR_PASS), (''CartManagement'', LR_PASS),
         (''CheckoutProcess'', LR_PASS), (''OrderConfirmation'', LR_PASS),
         (''FulfillmentProcessing'', LR_PASS), (''DeliveryTracking'', LR_PASS)]"
    by (intro exI conjI)
qed

text \<open>A step, and a run, in which every request fails while error simulation is off.\<close>

theorem step_passes_without_simulation_witness:
  "error_simulation (init_state\<lparr>error_simulation := 0\<rparr>) = 0 \<and>
   step_defined vuser_7 ''ProductDiscovery'' ''/api/process'' 13
     (init_state\<lparr>error_simulation := 0\<rparr>) \<and>
   fits_buffers vuser_7 (init_state\<lparr>error_simulation := 0\<rparr>) \<and>
   (\<exists>s' evs. execute_journey_step (vuser_7\<lparr>http_result := (\<lambda>k. LR_FAIL)\<rparr>)
             ''ProductDiscovery'' ''/api/process'' ''POST'' ProductDiscovery_body 13
             (init_state\<lparr>error_simulation := 0\<rparr>) = Inr (LR_PASS, s') \<and>
           trace s' = trace (init_state\<lparr>error_simulation := 0\<rparr>) @ evs \<and>
           ended evs = [(''Step_ProductDiscovery'', LR_PASS)] \<and>
           map request_status (requests evs) = [Some LR_FAIL]) \<and>
   (\<exists>s' evs. Action (vuser_7\<lparr>http_result := (\<lambda>k. LR_FAIL)\<rparr>)
             (init_state\<lparr>error_simulation := 0\<rparr>) = Inr (0, s') \<and>
           trace s' = trace (init_state\<lparr>error_simulation := 0\<rparr>) @ evs \<and>
           step_results evs =
             [(''ProductDiscovery'', LR_PASS), (''CartManagement'', LR_PASS),
              (''CheckoutProcess'', LR_PASS), (''OrderConfirmation'', LR_PASS),
              (''FulfillmentProcessing'', LR_PASS), (''DeliveryTracking'', LR_PASS)])"
proof -
  have h1: "error_simulation (init_state\<lparr>error_simulation := 0\<rparr>) = 0"
    by simp
  have h2: "step_defined vuser_7 ''ProductDiscovery'' ''/api/process'' 13
      (init_state\<lparr>error_simulation := 0\<rparr>)"
    by (simp add: step_defined_def vuser_7_def init_state_def fmt_d_7)
  have h3: "fits_buffers vuser_7 (init_state\<lparr>error_simulation := 0\<rparr>)"
    by (simp add: fits_buffers_def vuser_7_def init_state_def)
  from step_passes_without_simulation [OF h1, of vuser_7 "''ProductDiscovery''"
      "''/api/process''" 13 "\<lambda>k. LR_FAIL" "''POST''" ProductDiscovery_body]
  show ?thesis
    using h1 h2 h3 by simp
qed

text \<open>
  The claim C3 as written fails: the request of the step returns \<^verbatim>\<open>LR_FAIL\<close>, error
  simulation is off, and the step is marked passed.
\<close>

theorem transport_failure_counterexample:
  "error_simulation (init_state\<lparr>error_simulation := 0\<rparr>) = 0 \<and>
   execute_journey_step vuser_offline ''ProductDiscovery'' ''/api/process'' ''POST'' ''{}'' 13
       (init_state\<lparr>error_simulation := 0\<rparr>)
     = Inr (LR_PASS,
         init_state
           \<lparr>error_simulation := 0,
            dt_header := ''VU: 7; SI: abc; TSN: ProductDiscovery; LSN: BizObs_Next_Retail_Journey; LTN: Next_Performance_Test_20251127'',
            trace :=
              [Start_transaction ''Step_ProductDiscovery'',
               Add_header ''X-dynaTrace''
                 ''VU: 7; SI: abc; TSN: ProductDiscovery; LSN: BizObs_Next_Retail_Journey; LTN: Next_Performance_Test_20251127'',
               Add_header ''X-LoadRunner-Step'' ''ProductDiscovery'',
               Custom_request ''ProductDiscovery''
                 [''URL={full_url}'', ''Method=POST'', ''Resource=0'',
                  ''RecContentType=application/json'', ''Body={body}'']
                 LR_FAIL,
               Think_time 13000,
               End_transaction ''Step_ProductDiscovery'' LR_PASS],
            http_calls := 1\<rparr>)"
proof -
  have d: "step_defined vuser_offline ''ProductDiscovery'' ''/api/process'' 13
      (init_state\<lparr>error_simulation := 0\<rparr>)"
    by (simp add: step_defined_def vuser_offline_def init_state_def fmt_d_7)
  show ?thesis
    by (subst execute_journey_step_effect [OF d])
      (simp add: simulated_error_def step_post_def
        step_events_def before_wait_def after_wait_def step_request_def
        vuser_offline_def init_state_def fmt_d_7)
qed

text \<open>
  C4. With error simulation enabled a step is marked failed exactly when the value
  \<^verbatim>\<open>rand()\<close> returns leaves a remainder below 5 modulo 100, whatever the request
  returned, and is marked passed otherwise; of the hundred values 0 to 99 of
  \<^verbatim>\<open>rand()\<close> exactly five fail the step.
\<close>

theorem simulated_error_decides:
  assumes "error_simulation s \<noteq> 0" and "step_defined e n ep d s"
  shows "(\<exists>s' evs. execute_journey_step (e\<lparr>http_result := h\<rparr>) n ep m b d s =
             Inr (if sint (rand_value e (rand_calls s)) smod 100 < 5 then LR_FAIL else LR_PASS, s') \<and>
           trace s' = trace s @ evs \<and>
           ended evs =
             [(''Step_'' @ n,
               if sint (rand_value e (rand_calls s)) smod 100 < 5 then LR_FAIL else LR_PASS)]) \<and>
         length (filter
           (\<lambda>k. returned (execute_journey_step (e\<lparr>rand_value := (\<lambda>i. of_nat k)\<rparr>) n ep m b d s)
                  = Some LR_FAIL) [0..<100]) = 5"
proof (rule conjI)
  let ?e = "e\<lparr>http_result := h\<rparr>"
  let ?st = "if sint (rand_value e (rand_calls s)) smod 100 < 5 then LR_FAIL else LR_PASS"
  from assms have sim: "simulated_error ?e s \<longleftrightarrow> sint (rand_value e (rand_calls s)) smod 100 < 5"
    by (simp add: simulated_error_def)
  from assms have "step_defined ?e n ep d s" by simp
  then have eff: "execute_journey_step ?e n ep m b d s
      = Inr (if simulated_error ?e s then LR_FAIL else LR_PASS, step_post ?e n ep m b d s)"
    by (rule execute_journey_step_effect)
  show "\<exists>s' evs. execute_journey_step ?e n ep m b d s = Inr (?st, s') \<and>
           trace s' = trace s @ evs \<and> ended evs = [(''Step_'' @ n, ?st)]"
  proof (intro exI conjI)
    show "execute_journey_step ?e n ep m b d s = Inr (?st, step_post ?e n ep m b d s)"
      using eff sim by simp
    show "trace (step_post ?e n ep m b d s) = trace s @ step_events ?e n ep m b d s"
      by simp
    show "ended (step_events ?e n ep m b d s) = [(''Step_'' @ n, ?st)]"
      using sim by (simp add: ended_step_events)
  qed
next
  have "filter
      (\<lambda>k. returned (execute_journey_step (e\<lparr>rand_value := (\<lambda>i. of_nat k)\<rparr>) n ep m b d s)
             = Some LR_FAIL) [0..<100]
    = filter (\<lambda>k. k < 5) [0..<100]"
  proof (rule filter_cong [OF refl])
    fix k :: nat
    assume "k \<in> set [0..<100]"
    then have k: "k < 100" by simp
    from assms have "step_defined (e\<lparr>rand_value := (\<lambda>i. of_nat k)\<rparr>) n ep d s" by simp
    then have "returned (execute_journey_step (e\<lparr>rand_value := (\<lambda>i. of_nat k)\<rparr>) n ep m b d s)
        = Some (if simulated_error (e\<lparr>rand_value := (\<lambda>i. of_nat k)\<rparr>) s then LR_FAIL else LR_PASS)"
      by (rule returned_step)
    moreover from assms k have "simulated_error (e\<lparr>rand_value := (\<lambda>i. of_nat k)\<rparr>) s \<longleftrightarrow> k < 5"
      by (simp add: simulated_error_def sint_of_nat_small smod_100_small)
    ultimately show "(returned (execute_journey_step (e\<lparr>rand_value := (\<lambda>i. of_nat k)\<rparr>) n ep m b d s)
        = Some LR_FAIL) = (k < 5)"
      by simp
  qed
  then show "length (filter
      (\<lambda>k. returned (execute_journey_step (e\<lparr>rand_value := (\<lambda>i. of_nat k)\<rparr>) n ep m b d s)
             = Some LR_FAIL) [0..<100]) = 5"
    by (simp only: five_of_hundred)
qed

theorem simulated_error_decides_witness:
  "error_simulation (init_state\<lparr>rand_calls := 2\<rparr>) \<noteq> 0 \<and>
   step_defined vuser_7 ''CheckoutProcess'' ''/api/process'' 19 (init_state\<lparr>rand_calls := 2\<rparr>) \<and>
   (\<exists>s' evs. execute_journey_step (vuser_7\<lparr>http_result := (\<lambda>k. LR_PASS)\<rparr>)
             ''CheckoutProcess'' ''/api/process'' ''POST'' CheckoutProcess_body 19
             (init_state\<lparr>rand_calls := 2\<rparr>) = Inr (LR_FAIL, s') \<and>
           trace s' = trace (init_state\<lparr>rand_calls := 2\<rparr>) @ evs \<and>
           ended evs = [(''Step_CheckoutProcess'', LR_FAIL)]) \<and>
   length (filter
     (\<lambda>k. returned (execute_journey_step (vuser_7\<lparr>rand_value := (\<lambda>i. of_nat k)\<rparr>)
              ''CheckoutProcess'' ''/api/process'' ''POST'' CheckoutProcess_body 19
              (init_state\<lparr>rand_calls := 2\<rparr>)) = Some LR_FAIL) [0..<100]) = 5"
proof -
  have h1: "error_simulation (init_state\<lparr>rand_calls := 2\<rparr>) \<noteq> 0"
    by (simp add: init_state_def)
  have h2: "step_defined vuser_7 ''CheckoutProcess'' ''/api/process'' 19
      (init_state\<lparr>rand_calls := 2\<rparr>)"
    by (simp add: step_defined_def vuser_7_def init_state_def fmt_d_7)
  have r: "sint (rand_value vuser_7 (rand_calls (init_state\<lparr>rand_calls := 2\<rparr>))) smod 100 < 5"
    by (simp add: vuser_7_def signed_modulo_int_def)
  from simulated_error_decides [OF h1 h2, of "\<lambda>k. LR_PASS" "''POST''" CheckoutProcess_body]
  show ?thesis
    using h1 h2 r by (simp add: init_state_def)
qed

text \<open>
  C5, as the script has it. Every step request is a POST (attribute \<^verbatim>\<open>Method=POST\<close>)
  made right after two headers are added: \<^verbatim>\<open>X-dynaTrace\<close> with the value
  \<^verbatim>\<open>VU: <id>; SI: <session>; TSN: <step>; LSN: <LSN>; LTN: <LTN>\<close> built from the
  virtual-user id, the session id and the name of the step, and
  \<^verbatim>\<open>X-LoadRunner-Step\<close> with the name of the step. Nothing is said here of the URL of
  the request.
\<close>

theorem step_request_headers:
  assumes "step_defined e n ep d s"
  shows "\<exists>r s' req rest. execute_journey_step e n ep ''POST'' b d s = Inr (r, s') \<and>
           trace s' = trace s @
             [Start_transaction (''Step_'' @ n),
              Add_header ''X-dynaTrace''
                (''VU: '' @ fmt_d (sint (vuser_id e)) @ ''; SI: '' @ session_id e
                  @ ''; TSN: '' @ n @ ''; LSN: '' @ LSN s @ ''; LTN: '' @ LTN s),
              Add_header ''X-LoadRunner-Step'' n,
              req] @ rest \<and>
           is_request req \<and>
           request_attribute ''Method'' req = Some ''POST'' \<and>
           requests rest = [] \<and> headers rest = []"
proof -
  let ?rest = "[Think_time (sint d * 1000)] @ after_wait e n s"
  from assms have eff: "execute_journey_step e n ep ''POST'' b d s
      = Inr (if simulated_error e s then LR_FAIL else LR_PASS, step_post e n ep ''POST'' b d s)"
    by (rule execute_journey_step_effect)
  show ?thesis
  proof (intro exI conjI)
    show "execute_journey_step e n ep ''POST'' b d s
      = Inr (if simulated_error e s then LR_FAIL else LR_PASS, step_post e n ep ''POST'' b d s)"
      by (fact eff)
    show "trace (step_post e n ep ''POST'' b d s) = trace s @
             [Start_transaction (''Step_'' @ n),
              Add_header ''X-dynaTrace''
                (''VU: '' @ fmt_d (sint (vuser_id e)) @ ''; SI: '' @ session_id e
                  @ ''; TSN: '' @ n @ ''; LSN: '' @ LSN s @ ''; LTN: '' @ LTN s),
              Add_header ''X-LoadRunner-Step'' n,
              step_request e n ep b s] @ ?rest"
      by (simp add: step_events_def before_wait_def)
    show "is_request (step_request e n ep b s)" by simp
    show "request_attribute ''Method'' (step_request e n ep b s) = Some ''POST''" by simp
    show "requests ?rest = []" by (simp add: requests_append)
    show "headers ?rest = []" by (simp add: headers_append)
  qed
qed

theorem step_request_headers_witness:
  "step_defined vuser_7 ''ProductDiscovery'' ''/api/process'' 13 init_state \<and>
   (\<exists>r s' req rest.
      execute_journey_step vuser_7 ''ProductDiscovery'' ''/api/process'' ''POST''
        ProductDiscovery_body 13 init_state = Inr (r, s') \<and>
      trace s' = trace init_state @
        [Start_transaction ''Step_ProductDiscovery'',
         Add_header ''X-dynaTrace''
           ''VU: 7; SI: abc; TSN: ProductDiscovery; LSN: BizObs_Next_Retail_Journey; LTN: Next_Performance_Test_20251127'',
         Add_header ''X-LoadRunner-Step'' ''ProductDiscovery'',
         req] @ rest \<and>
      is_request req \<and>
      request_attribute ''Method'' req = Some ''POST'' \<and>
      requests rest = [] \<and> headers rest = [])"
proof -
  have h: "step_defined vuser_7 ''ProductDiscovery'' ''/api/process'' 13 init_state"
    by (simp add: step_defined_def vuser_7_def init_state_def fmt_d_7)
  have v: "fmt_d (sint (vuser_id vuser_7)) = ''7''" "session_id vuser_7 = ''abc''"
    by (simp_all add: vuser_7_def fmt_d_7)
  from step_request_headers [OF h, of ProductDiscovery_body] h
  show ?thesis
    by (simp add: v) (simp add: init_state_def)
qed

text \<open>
  The claim C5 as written fails twice at the first step of a run. The step adds the
  headers \<^verbatim>\<open>X-dynaTrace\<close> and \<^verbatim>\<open>X-LoadRunner-Step\<close>, and the header \<^verbatim>\<open>X-Correlation\<close> of
  the specification is not among them. The URL attribute handed to the library is the
  text \<^verbatim>\<open>{full_url}\<close>, not \<^verbatim>\<open>base_url\<close> followed by the endpoint: the script builds that
  in its local array \<^verbatim>\<open>full_url\<close> (line 126) and passes it to no call.
\<close>

theorem correlation_header_counterexample:
  "(case execute_journey_step vuser_7 ''ProductDiscovery'' ''/api/process'' ''POST''
           ProductDiscovery_body 13 init_state of
      Inl u \<Rightarrow> []
    | Inr (r, s') \<Rightarrow> headers (trace s'))
     = [(''X-dynaTrace'',
         ''VU: 7; SI: abc; TSN: ProductDiscovery; LSN: BizObs_Next_Retail_Journey; LTN: Next_Performance_Test_20251127''),
        (''X-LoadRunner-Step'', ''ProductDiscovery'')] \<and>
   spec_correlation_header (sint (vuser_id vuser_7)) (session_id vuser_7) ''ProductDiscovery''
       (LSN init_state) (LTN init_state)
     = (''X-Correlation'',
        ''VU=7; Session=abc; Step=ProductDiscovery; Script=BizObs_Next_Retail_Journey; Test=Next_Performance_Test_20251127'') \<and>
   spec_correlation_header (sint (vuser_id vuser_7)) (session_id vuser_7) ''ProductDiscovery''
       (LSN init_state) (LTN init_state)
     \<notin> set (case execute_journey_step vuser_7 ''ProductDiscovery'' ''/api/process'' ''POST''
                  ProductDiscovery_body 13 init_state of
               Inl u \<Rightarrow> []
             | Inr (r, s') \<Rightarrow> headers (trace s')) \<and>
   (case execute_journey_step vuser_7 ''ProductDiscovery'' ''/api/process'' ''POST''
           ProductDiscovery_body 13 init_state of
      Inl u \<Rightarrow> []
    | Inr (r, s') \<Rightarrow> map (request_attribute ''URL'') (requests (trace s')))
     = [Some ''{full_url}''] \<and>
   ''{full_url}'' \<noteq> base_url init_state @ ''/api/process''"
proof -
  have d: "step_defined vuser_7 ''ProductDiscovery'' ''/api/process'' 13 init_state"
    by (simp add: step_defined_def vuser_7_def init_state_def fmt_d_7)
  have hs: "(case execute_journey_step vuser_7 ''ProductDiscovery'' ''/api/process'' ''POST''
           ProductDiscovery_body 13 init_state of
      Inl u \<Rightarrow> []
    | Inr (r, s') \<Rightarrow> headers (trace s'))
     = [(''X-dynaTrace'',
         ''VU: 7; SI: abc; TSN: ProductDiscovery; LSN: BizObs_Next_Retail_Journey; LTN: Next_Performance_Test_20251127''),
        (''X-LoadRunner-Step'', ''ProductDiscovery'')]"
    by (subst execute_journey_step_effect [OF d])
      (simp add: step_events_def before_wait_def step_request_def headers_append
        vuser_7_def init_state_def fmt_d_7)
  have sp: "spec_correlation_header (sint (vuser_id vuser_7)) (session_id vuser_7)
       ''ProductDiscovery'' (LSN init_state) (LTN init_state)
     = (''X-Correlation'',
        ''VU=7; Session=abc; Step=ProductDiscovery; Script=BizObs_Next_Retail_Journey; Test=Next_Performance_Test_20251127'')"
    by (simp add: spec_correlation_header_def vuser_7_def init_state_def fmt_d_7)
  have url: "(case execute_journey_step vuser_7 ''ProductDiscovery'' ''/api/process'' ''POST''
           ProductDiscovery_body 13 init_state of
      Inl u \<Rightarrow> []
    | Inr (r, s') \<Rightarrow> map (request_attribute ''URL'') (requests (trace s')))
     = [Some ''{full_url}'']"
    by (subst execute_journey_step_effect [OF d])
      (simp add: requests_append requests_step_events init_state_def)
  have ne: "''{full_url}'' \<noteq> base_url init_state @ ''/api/process''"
    by (simp add: init_state_def)
  show ?thesis
    by (simp only: hs sp url) (simp add: ne)
qed

text \<open>
  C6 at a run of virtual user 7 from the initial globals. The script formats the JSON
  object of the eight members eventType, companyName, testName, scriptName, vuserId,
  sessionId, timestamp and totalSteps (6) into its local array \<^verbatim>\<open>request_body\<close>, but
  the last request of the run, \<^verbatim>\<open>Journey_Summary\<close>, is handed the attribute texts
  \<^verbatim>\<open>URL={base_url}/api/journey-complete\<close> and \<^verbatim>\<open>Body={request_body}\<close> only: its body is
  not the JSON object that was formatted.
\<close>

theorem summary_body_not_passed:
  "\<exists>s step_requests req.
     Action vuser_7 init_state = Inr (0, s) \<and>
     requests (trace s) = step_requests @ [req] \<and> length step_requests = 6 \<and>
     req = Custom_request ''Journey_Summary''
             [''URL={base_url}/api/journey-complete'', ''Method=POST'', ''Resource=0'',
              ''RecContentType=application/json'', ''Body={request_body}'']
             LR_PASS \<and>
     request_attribute ''URL'' req = Some ''{base_url}/api/journey-complete'' \<and>
     request_attribute ''Body'' req = Some ''{request_body}'' \<and>
     sprintf 2048 (summary_body vuser_7 init_state) =
       Inr (json_object
         [(''eventType'', json_string ''JOURNEY_COMPLETE''),
          (''companyName'', json_string ''Next''),
          (''testName'', json_string ''Next_Performance_Test_20251127''),
          (''scriptName'', json_string ''BizObs_Next_Retail_Journey''),
          (''vuserId'', ''7''),
          (''sessionId'', json_string ''abc''),
          (''timestamp'', json_string ''2025-11-27T10:30:00.000Z''),
          (''totalSteps'', ''6'')]) \<and>
     request_attribute ''Body'' req \<noteq> Some (summary_body vuser_7 init_state)"
proof -
  let ?req = "summary_request vuser_7 (steps_post vuser_7 journey (init_post vuser_7 init_state))"
  have h: "fits_buffers vuser_7 init_state"
    by (simp add: fits_buffers_def vuser_7_def init_state_def)
  from Action_effect [OF h] obtain s where s: "Action vuser_7 init_state = Inr (0, s)"
    and t: "trace s = trace init_state @ journey_events vuser_7 init_state"
    by blast
  have t': "trace s = journey_events vuser_7 init_state"
    using t by (simp add: init_state_def)
  have v: "fmt_d (sint (vuser_id vuser_7)) = ''7''" "session_id vuser_7 = ''abc''"
    by (simp_all add: vuser_7_def fmt_d_7)
  have body: "summary_body vuser_7 init_state =
      json_object
         [(''eventType'', json_string ''JOURNEY_COMPLETE''),
          (''companyName'', json_string ''Next''),
          (''testName'', json_string ''Next_Performance_Test_20251127''),
          (''scriptName'', json_string ''BizObs_Next_Retail_Journey''),
          (''vuserId'', ''7''),
          (''sessionId'', json_string ''abc''),
          (''timestamp'', json_string ''2025-11-27T10:30:00.000Z''),
          (''totalSteps'', ''6'')]"
    by (simp add: summary_body_json v) (simp add: init_state_def)
  have fits: "sprintf 2048 (summary_body vuser_7 init_state) = Inr (summary_body vuser_7 init_state)"
    by (simp add: sprintf_def summary_body_def v) (simp add: init_state_def)
  show ?thesis
  proof (intro exI conjI)
    show "Action vuser_7 init_state = Inr (0, s)" by (fact s)
    show "requests (trace s)
        = requests (steps_events vuser_7 journey (init_post vuser_7 init_state)) @ [?req]"
      by (simp only: t' requests_journey_events)
    show "length (requests (steps_events vuser_7 journey (init_post vuser_7 init_state))) = 6"
      by (simp add: requests_steps_events) (simp add: journey_def)
    show "?req = Custom_request ''Journey_Summary''
             [''URL={base_url}/api/journey-complete'', ''Method=POST'', ''Resource=0'',
              ''RecContentType=application/json'', ''Body={request_body}'']
             LR_PASS"
      by (simp add: summary_request_def vuser_7_def)
    show "request_attribute ''URL'' ?req = Some ''{base_url}/api/journey-complete''"
      by simp
    show "request_attribute ''Body'' ?req = Some ''{request_body}''"
      by simp
    show "sprintf 2048 (summary_body vuser_7 init_state) =
       Inr (json_object
         [(''eventType'', json_string ''JOURNEY_COMPLETE''),
          (''companyName'', json_string ''Next''),
          (''testName'', json_string ''Next_Performance_Test_20251127''),
          (''scriptName'', json_string ''BizObs_Next_Retail_Journey''),
          (''vuserId'', ''7''),
          (''sessionId'', json_string ''abc''),
          (''timestamp'', json_string ''2025-11-27T10:30:00.000Z''),
          (''totalSteps'', ''6'')])"
      using fits by (simp only: body)
    show "request_attribute ''Body'' ?req \<noteq> Some (summary_body vuser_7 init_state)"
      by (simp add: summary_body_def)
  qed
qed

text \<open>
  C7. In every step the call \<^verbatim>\<open>lr_think_time(duration * 1000)\<close> is the one wait of the
  step: it comes after the request of the step and before the transaction of the step
  ends, and adds the duration of the step times 1000 (milliseconds, as the claim reads
  the argument of \<^verbatim>\<open>lr_think_time\<close>) to the total waited. The time that really passes
  is the library's affair and not part of the model.
\<close>

theorem think_time_of_step:
  assumes "step_defined e n ep d s"
  shows "\<exists>r s' pre post. execute_journey_step e n ep m b d s = Inr (r, s') \<and>
           trace s' = trace s @ pre @ [Think_time (sint d * 1000)] @ post \<and>
           started pre = [''Step_'' @ n] \<and> ended pre = [] \<and>
           length (requests pre) = (if m = ''POST'' then 1 else 0) \<and>
           requests post = [] \<and> ended post = [(''Step_'' @ n, r)] \<and>
           think_total pre = 0 \<and> think_total post = 0 \<and>
           think_total (trace s') = think_total (trace s) + sint d * 1000"
proof -
  let ?r = "if simulated_error e s then LR_FAIL else LR_PASS"
  from assms have eff: "execute_journey_step e n ep m b d s
      = Inr (?r, step_post e n ep m b d s)"
    by (rule execute_journey_step_effect)
  show ?thesis
  proof (intro exI conjI)
    show "execute_journey_step e n ep m b d s = Inr (?r, step_post e n ep m b d s)"
      by (fact eff)
    show "trace (step_post e n ep m b d s)
        = trace s @ before_wait e n ep m b s @ [Think_time (sint d * 1000)] @ after_wait e n s"
      by (simp add: step_events_def)
    show "started (before_wait e n ep m b s) = [''Step_'' @ n]" by simp
    show "ended (before_wait e n ep m b s) = []" by simp
    show "length (requests (before_wait e n ep m b s)) = (if m = ''POST'' then 1 else 0)"
      by simp
    show "requests (after_wait e n s) = []" by simp
    show "ended (after_wait e n s) = [(''Step_'' @ n, ?r)]" by simp
    show "think_total (before_wait e n ep m b s) = 0" by simp
    show "think_total (after_wait e n s) = 0" by simp
    show "think_total (trace (step_post e n ep m b d s)) = think_total (trace s) + sint d * 1000"
      by (simp add: think_total_append think_total_step_events)
  qed
qed

text \<open>
  Two steps A and B with durations 1 and 2, one after the other: 3000 in all.
\<close>

theorem think_time_of_step_witness:
  "step_defined vuser_7 ''A'' ''/a'' 1 init_state \<and>
   (\<exists>r s' pre post. execute_journey_step vuser_7 ''A'' ''/a'' ''POST'' ''{}'' 1 init_state = Inr (r, s') \<and>
           trace s' = trace init_state @ pre @ [Think_time (sint (1 :: 32 word) * 1000)] @ post \<and>
           started pre = [''Step_'' @ ''A''] \<and> ended pre = [] \<and>
           length (requests pre) = (if ''POST'' = ''POST'' then 1 else 0) \<and>
           requests post = [] \<and> ended post = [(''Step_'' @ ''A'', r)] \<and>
           think_total pre = 0 \<and> think_total post = 0 \<and>
           think_total (trace s') = think_total (trace init_state) + sint (1 :: 32 word) * 1000) \<and>
   (\<exists>r1 s1 r2 s2.
      execute_journey_step vuser_7 ''A'' ''/a'' ''POST'' ''{}'' 1 init_state = Inr (r1, s1) \<and>
      execute_journey_step vuser_7 ''B'' ''/b'' ''POST'' ''{}'' 2 s1 = Inr (r2, s2) \<and>
      think_total (trace s2) = 3000)"
proof -
  have a: "step_defined vuser_7 ''A'' ''/a'' 1 init_state"
    by (simp add: step_defined_def vuser_7_def init_state_def fmt_d_7)
  note A = think_time_of_step [OF a, of "''POST''" "''{}''"]
  from A obtain r1 s1 where x1: "execute_journey_step vuser_7 ''A'' ''/a'' ''POST'' ''{}'' 1 init_state
      = Inr (r1, s1)"
    and t1: "think_total (trace s1) = think_total (trace init_state) + sint (1 :: 32 word) * 1000"
    by blast
  from x1 have s1: "s1 = step_post vuser_7 ''A'' ''/a'' ''POST'' ''{}'' 1 init_state"
    by (simp add: execute_journey_step_effect [OF a])
  have b: "step_defined vuser_7 ''B'' ''/b'' 2 s1"
    by (simp add: s1 step_defined_def vuser_7_def init_state_def fmt_d_7)
  from think_time_of_step [OF b, of "''POST''" "''{}''"]
  obtain r2 s2 where x2: "execute_journey_step vuser_7 ''B'' ''/b'' ''POST'' ''{}'' 2 s1 = Inr (r2, s2)"
    and t2: "think_total (trace s2) = think_total (trace s1) + sint (2 :: 32 word) * 1000"
    by blast
  from t1 t2 have "think_total (trace s2) = 3000"
    by (simp add: init_state_def)
  with x1 x2 have "\<exists>r1 s1 r2 s2.
      execute_journey_step vuser_7 ''A'' ''/a'' ''POST'' ''{}'' 1 init_state = Inr (r1, s1) \<and>
      execute_journey_step vuser_7 ''B'' ''/b'' ''POST'' ''{}'' 2 s1 = Inr (r2, s2) \<and>
      think_total (trace s2) = 3000"
    by blast
  with a A show ?thesis by (intro conjI)
qed

text \<open>
  C8. Within one run the transactions started are Journey\_Initialization, the six
  \<^verbatim>\<open>Step_<name>\<close> transactions and Journey\_Complete; these eight names are pairwise
  distinct, and each transaction started is ended, in the same order.
\<close>

theorem Action_transaction_names_distinct:
  assumes "fits_buffers e s0"
  shows "\<exists>s evs. Action e s0 = Inr (0, s) \<and> trace s = trace s0 @ evs \<and>
           started evs =
             [''Journey_Initialization'', ''Step_ProductDiscovery'', ''Step_CartManagement'',
              ''Step_CheckoutProcess'', ''Step_OrderConfirmation'',
              ''Step_FulfillmentProcessing'', ''Step_DeliveryTracking'', ''Journey_Complete''] \<and>
           distinct (started evs) \<and>
           map fst (ended evs) = started evs"
proof -
  from assms obtain s where s: "Action e s0 = Inr (0, s)"
    and t: "trace s = trace s0 @ journey_events e s0"
    using Action_effect by blast
  have d: "distinct (started (journey_events e s0))"
    by (simp only: started_journey_events) simp
  show ?thesis
  proof (intro exI conjI)
    show "Action e s0 = Inr (0, s)" by (fact s)
    show "trace s = trace s0 @ journey_events e s0" by (fact t)
    show "started (journey_events e s0) =
             [''Journey_Initialization'', ''Step_ProductDiscovery'', ''Step_CartManagement'',
              ''Step_CheckoutProcess'', ''Step_OrderConfirmation'',
              ''Step_FulfillmentProcessing'', ''Step_DeliveryTracking'', ''Journey_Complete'']"
      by (fact started_journey_events)
    show "distinct (started (journey_events e s0))" by (fact d)
    show "map fst (ended (journey_events e s0)) = started (journey_events e s0)"
      by (fact ended_journey_events)
  qed
qed

theorem Action_transaction_names_distinct_witness:
  "fits_buffers vuser_7 init_state \<and>
   (\<exists>s evs. Action vuser_7 init_state = Inr (0, s) \<and> trace s = trace init_state @ evs \<and>
           started evs =
             [''Journey_Initialization'', ''Step_ProductDiscovery'', ''Step_CartManagement'',
              ''Step_CheckoutProcess'', ''Step_OrderConfirmation'',
              ''Step_FulfillmentProcessing'', ''Step_DeliveryTracking'', ''Journey_Complete''] \<and>
           distinct (started evs) \<and>
           map fst (ended evs) = started evs)"
proof -
  have h: "fits_buffers vuser_7 init_state"
    by (simp add: fits_buffers_def vuser_7_def init_state_def)
  from h Action_transaction_names_distinct [OF h] show ?thesis by (rule conjI)
qed

text \<open>
  C9. A step sends a request only when its method is \<^verbatim>\<open>POST\<close>. With any other method
  the call does everything else it does with \<^verbatim>\<open>POST\<close>: it starts the transaction, adds
  the headers, waits, and ends the transaction with the same result.
\<close>

theorem request_only_for_POST:
  assumes "step_defined e n ep d s"
  shows "\<exists>r s1 s2 pre req post.
           execute_journey_step e n ep m b d s = Inr (r, s1) \<and>
           execute_journey_step e n ep ''POST'' b d s = Inr (r, s2) \<and>
           trace s2 = trace s @ pre @ [req, Think_time (sint d * 1000)] @ post \<and>
           trace s1 = trace s @ pre @ (if m = ''POST'' then [req] else [])
             @ [Think_time (sint d * 1000)] @ post \<and>
           is_request req \<and> requests pre = [] \<and> requests post = [] \<and>
           started pre = [''Step_'' @ n] \<and> ended post = [(''Step_'' @ n, r)]"
proof -
  let ?r = "if simulated_error e s then LR_FAIL else LR_PASS"
  let ?pre = "before_wait e n ep [] b s"
  have pre: "before_wait e n ep m b s = ?pre @ (if m = ''POST'' then [step_request e n ep b s] else [])"
    for m
    by (simp add: before_wait_def)
  show ?thesis
  proof (intro exI conjI)
    show "execute_journey_step e n ep m b d s = Inr (?r, step_post e n ep m b d s)"
      using assms by (rule execute_journey_step_effect)
    show "execute_journey_step e n ep ''POST'' b d s = Inr (?r, step_post e n ep ''POST'' b d s)"
      using assms by (rule execute_journey_step_effect)
    show "trace (step_post e n ep ''POST'' b d s)
        = trace s @ ?pre @ [step_request e n ep b s, Think_time (sint d * 1000)] @ after_wait e n s"
      by (simp add: step_events_def pre [of "''POST''"])
    show "trace (step_post e n ep m b d s)
        = trace s @ ?pre @ (if m = ''POST'' then [step_request e n ep b s] else [])
            @ [Think_time (sint d * 1000)] @ after_wait e n s"
      by (simp add: step_events_def pre [of m])
    show "is_request (step_request e n ep b s)" by simp
    show "requests ?pre = []" by simp
    show "requests (after_wait e n s) = []" by simp
    show "started ?pre = [''Step_'' @ n]" by simp
    show "ended (after_wait e n s) = [(''Step_'' @ n, ?r)]" by simp
  qed
qed

theorem request_only_for_POST_witness:
  "step_defined vuser_7 ''A'' ''/a'' 1 init_state \<and>
   (\<exists>r s1 s2 pre req post.
           execute_journey_step vuser_7 ''A'' ''/a'' ''GET'' ''{}'' 1 init_state = Inr (r, s1) \<and>
           execute_journey_step vuser_7 ''A'' ''/a'' ''POST'' ''{}'' 1 init_state = Inr (r, s2) \<and>
           trace s2 = trace init_state @ pre @ [req, Think_time (sint (1 :: 32 word) * 1000)] @ post \<and>
           trace s1 = trace init_state @ pre @ (if ''GET'' = ''POST'' then [req] else [])
             @ [Think_time (sint (1 :: 32 word) * 1000)] @ post \<and>
           is_request req \<and> requests pre = [] \<and> requests post = [] \<and>
           started pre = [''Step_'' @ ''A''] \<and> ended post = [(''Step_'' @ ''A'', r)])"
proof -
  have a: "step_defined vuser_7 ''A'' ''/a'' 1 init_state"
    by (simp add: step_defined_def vuser_7_def init_state_def fmt_d_7)
  from a request_only_for_POST [OF a, of "''GET''" "''{}''"] show ?thesis
    by (intro conjI)
qed

text \<open>
  C10. A step that error simulation marks failed has made its request (when its method
  is \<^verbatim>\<open>POST\<close>) and waited its whole duration before \<^verbatim>\<open>rand()\<close> is called and the
  transaction is ended with \<^verbatim>\<open>LR_FAIL\<close>.
\<close>

theorem simulated_failure_after_wait:
  assumes "execute_journey_step e n ep m b d s = Inr (LR_FAIL, s')"
  shows "\<exists>pre r. trace s' = trace s @ pre @
             [Think_time (sint d * 1000), Rand_drawn r,
              End_transaction (''Step_'' @ n) LR_FAIL,
              Error_message (''Simulated error in step: '' @ n)] \<and>
           sint r smod 100 < 5 \<and>
           started pre = [''Step_'' @ n] \<and> ended pre = [] \<and> think_total pre = 0 \<and>
           length (requests pre) = (if m = ''POST'' then 1 else 0) \<and>
           think_total (trace s') = think_total (trace s) + sint d * 1000"
proof -
  from assms have d: "step_defined e n ep d s"
    using step_defined_iff [of e n ep d s m b] by blast
  note eff = execute_journey_step_effect [OF d, of m b]
  from assms eff have sim: "simulated_error e s"
    and s': "s' = step_post e n ep m b d s"
    by (auto split: if_splits)
  from sim have tail: "after_wait e n s =
      [Rand_drawn (rand_value e (rand_calls s)), End_transaction (''Step_'' @ n) LR_FAIL,
       Error_message (''Simulated error in step: '' @ n)]"
    by (simp add: after_wait_def simulated_error_def)
  show ?thesis
  proof (intro exI conjI)
    show "trace s' = trace s @ before_wait e n ep m b s @
             [Think_time (sint d * 1000), Rand_drawn (rand_value e (rand_calls s)),
              End_transaction (''Step_'' @ n) LR_FAIL,
              Error_message (''Simulated error in step: '' @ n)]"
      by (simp add: s' step_events_def tail)
    show "sint (rand_value e (rand_calls s)) smod 100 < 5"
      using sim by (simp add: simulated_error_def)
    show "started (before_wait e n ep m b s) = [''Step_'' @ n]" by simp
    show "ended (before_wait e n ep m b s) = []" by simp
    show "think_total (before_wait e n ep m b s) = 0" by simp
    show "length (requests (before_wait e n ep m b s)) = (if m = ''POST'' then 1 else 0)"
      by simp
    show "think_total (trace s') = think_total (trace s) + sint d * 1000"
      by (simp add: s' think_total_append think_total_step_events)
  qed
qed

theorem simulated_failure_after_wait_witness:
  "execute_journey_step vuser_7 ''CheckoutProcess'' ''/api/process'' ''POST''
       CheckoutProcess_body 19 (init_state\<lparr>rand_calls := 2\<rparr>)
     = Inr (LR_FAIL,
         step_post vuser_7 ''CheckoutProcess'' ''/api/process'' ''POST''
           CheckoutProcess_body 19 (init_state\<lparr>rand_calls := 2\<rparr>)) \<and>
   (\<exists>pre r.
      trace (step_post vuser_7 ''CheckoutProcess'' ''/api/process'' ''POST''
               CheckoutProcess_body 19 (init_state\<lparr>rand_calls := 2\<rparr>))
        = trace (init_state\<lparr>rand_calls := 2\<rparr>) @ pre @
            [Think_time (sint (19 :: 32 word) * 1000), Rand_drawn r,
             End_transaction (''Step_'' @ ''CheckoutProcess'') LR_FAIL,
             Error_message (''Simulated error in step: '' @ ''CheckoutProcess'')] \<and>
      sint r smod 100 < 5 \<and>
      started pre = [''Step_'' @ ''CheckoutProcess''] \<and> ended pre = [] \<and>
      think_total pre = 0 \<and>
      length (requests pre) = (if ''POST'' = ''POST'' then 1 else 0) \<and>
      think_total (trace (step_post vuser_7 ''CheckoutProcess'' ''/api/process'' ''POST''
               CheckoutProcess_body 19 (init_state\<lparr>rand_calls := 2\<rparr>)))
        = think_total (trace (init_state\<lparr>rand_calls := 2\<rparr>)) + sint (19 :: 32 word) * 1000)"
proof -
  have d: "step_defined vuser_7 ''CheckoutProcess'' ''/api/process'' 19
      (init_state\<lparr>rand_calls := 2\<rparr>)"
    by (simp add: step_defined_def vuser_7_def init_state_def fmt_d_7)
  have sim: "simulated_error vuser_7 (init_state\<lparr>rand_calls := 2\<rparr>)"
    by (simp add: simulated_error_def vuser_7_def init_state_def signed_modulo_int_def)
  have h: "execute_journey_step vuser_7 ''CheckoutProcess'' ''/api/process'' ''POST''
       CheckoutProcess_body 19 (init_state\<lparr>rand_calls := 2\<rparr>)
     = Inr (LR_FAIL,
         step_post vuser_7 ''CheckoutProcess'' ''/api/process'' ''POST''
           CheckoutProcess_body 19 (init_state\<lparr>rand_calls := 2\<rparr>))"
    using execute_journey_step_effect [OF d] sim by simp
  from h simulated_failure_after_wait [OF h] show ?thesis by (rule conjI)
qed

end
